theory Spec2Isabelle
  imports Complex_Main
begin

section \<open>Numbers, modes and loops\<close>

text \<open>
  The scene is written in TypeScript. Its numbers are IEEE doubles (and single floats
  inside a \<^verbatim>\<open>Float32Array\<close>); this development reads them as real numbers, so
  rounding, NaN and the infinities are outside the model, except for the stores to the
  position array, whose rounding \<open>moveInstance_stored\<close> writes out. Array indices and
  population sizes are natural numbers.

  \<^verbatim>\<open>export enum InteractionState { Tree = 0, Exploded = 1 }\<close>
\<close>

datatype InteractionState = Tree | Exploded

text \<open>
  \<^verbatim>\<open>for (let i = a; i < n; i++) { s = body(i, s) }\<close>: the state \<open>s\<close> stands for
  everything the body mutates.
\<close>

function for_loop :: "nat \<Rightarrow> nat \<Rightarrow> (nat \<Rightarrow> 's \<Rightarrow> 's) \<Rightarrow> 's \<Rightarrow> 's" where
  "for_loop i n body s = (if i < n then for_loop (Suc i) n body (body i s) else s)"
  by pat_completeness auto
termination
  by (relation "measure (\<lambda>(i, n, body, s). n - i)") auto

declare for_loop.simps [simp del]

section \<open>Gesture-to-control mapping\<close>

subsection \<open>Wrist position to rotation speed (App.tsx, handleHandMove)\<close>

definition CENTER :: real where
  "CENTER = 0.5"

definition DEADZONE :: real where
  "DEADZONE = 0.05"

definition SENSITIVITY :: real where
  "SENSITIVITY = 6.0"

text \<open>
  \<^verbatim>\<open>
  let speed = 0;
  if (x < CENTER - DEADZONE) {
    const dist = (CENTER - DEADZONE) - x;
    speed = -dist * SENSITIVITY;
  } else if (x > CENTER + DEADZONE) {
    const dist = x - (CENTER + DEADZONE);
    speed = dist * SENSITIVITY;
  }
  setRotationSpeed(speed);
  \<close>
  The result is the value handed to \<^verbatim>\<open>setRotationSpeed\<close>.
\<close>

definition handleHandMove :: "real \<Rightarrow> real" where
  "handleHandMove x =
     (if x < CENTER - DEADZONE then
        (let dist = (CENTER - DEADZONE) - x in - dist * SENSITIVITY)
      else if x > CENTER + DEADZONE then
        (let dist = x - (CENTER + DEADZONE) in dist * SENSITIVITY)
      else 0)"

subsection \<open>Hand tracker (HandTracker, predictWebcam)\<close>

text \<open>
  The three refs of the component:
  \<^verbatim>\<open>smoothedX = useRef(0.5); smoothedRatio = useRef(1.2); isOpenState = useRef(false)\<close>.
\<close>

record tracker =
  smoothedX :: real
  smoothedRatio :: real
  isOpenState :: bool

definition tracker_init :: tracker where
  "tracker_init = \<lparr>smoothedX = 0.5, smoothedRatio = 1.2, isOpenState = False\<rparr>"

text \<open>
  The exponential filter used twice in the callback:
  \<^verbatim>\<open>cur = cur + (raw - cur) * alpha\<close>.
\<close>

definition smooth :: "real \<Rightarrow> real \<Rightarrow> real \<Rightarrow> real" where
  "smooth cur raw alpha = cur + (raw - cur) * alpha"

text \<open>
  The hysteresis block, on the open flag and the smoothed ratio. It returns the new flag
  and the argument of the \<^verbatim>\<open>onGestureChange\<close> call, if one is made
  (\<open>True\<close> is the Open event, \<open>False\<close> the Close event).
  \<^verbatim>\<open>
  if (!isOpenState.current && smoothedRatio.current > 1.35) {
      isOpenState.current = true;  onGestureChange(true);
  } else if (isOpenState.current && smoothedRatio.current < 1.25) {
      isOpenState.current = false; onGestureChange(false);
  }
  \<close>
\<close>

definition hysteresis :: "bool \<Rightarrow> real \<Rightarrow> bool \<times> bool option" where
  "hysteresis isOpen ratio =
     (if \<not> isOpen \<and> ratio > 1.35 then (True, Some True)
      else if isOpen \<and> ratio < 1.25 then (False, Some False)
      else (isOpen, None))"

text \<open>
  One video frame of \<^verbatim>\<open>predictWebcam\<close>, from the raw ratio on. The frame is
  \<open>None\<close> when no hand was detected (nothing is updated), otherwise the raw
  tip/knuckle ratio and the wrist's x coordinate. The result is the new refs, the
  \<^verbatim>\<open>onGestureChange\<close> call and the \<^verbatim>\<open>onHandMove\<close> call of the frame.
\<close>

definition predictWebcam ::
  "tracker \<Rightarrow> (real \<times> real) option \<Rightarrow> tracker \<times> bool option \<times> real option" where
  "predictWebcam t frame =
     (case frame of
        None \<Rightarrow> (t, None, None)
      | Some (rawRatio, wristX) \<Rightarrow>
          (let alpha = 0.25;
               ratio = smooth (smoothedRatio t) rawRatio alpha;
               (isOpen, gesture) = hysteresis (isOpenState t) ratio;
               targetX = 1 - wristX;
               posAlpha = 0.2;
               sx = smooth (smoothedX t) targetX posAlpha
           in (\<lparr>smoothedX = sx, smoothedRatio = ratio, isOpenState = isOpen\<rparr>,
               gesture, Some sx)))"

text \<open>The \<^verbatim>\<open>onGestureChange\<close> calls made over a sequence of video frames, in order.\<close>

fun gesture_events :: "tracker \<Rightarrow> (real \<times> real) option list \<Rightarrow> bool list" where
  "gesture_events t [] = []"
| "gesture_events t (f # fs) =
     (case predictWebcam t f of
        (t', None, _) \<Rightarrow> gesture_events t' fs
      | (t', Some g, _) \<Rightarrow> g # gesture_events t' fs)"

text \<open>
  The same for the hysteresis block alone, fed the smoothed ratios one by one from a
  given open flag.
\<close>

fun hysteresis_events :: "bool \<Rightarrow> real list \<Rightarrow> bool list" where
  "hysteresis_events isOpen [] = []"
| "hysteresis_events isOpen (r # rs) =
     (case hysteresis isOpen r of
        (isOpen', None) \<Rightarrow> hysteresis_events isOpen' rs
      | (isOpen', Some g) \<Rightarrow> g # hysteresis_events isOpen' rs)"

text \<open>The smoothed ratios a sequence of frames produces (frames without a hand give none).\<close>

fun smoothed_ratios :: "real \<Rightarrow> (real \<times> real) option list \<Rightarrow> real list" where
  "smoothed_ratios s [] = []"
| "smoothed_ratios s (None # fs) = smoothed_ratios s fs"
| "smoothed_ratios s (Some (rawRatio, wristX) # fs) =
     smooth s rawRatio 0.25 # smoothed_ratios (smooth s rawRatio 0.25) fs"

text \<open>A list of events alternates when no two neighbours are equal.\<close>

fun alternating :: "bool list \<Rightarrow> bool" where
  "alternating (a # b # es) = (a \<noteq> b \<and> alternating (b # es))"
| "alternating es = True"

section \<open>Shared pieces of the scene components\<close>

text \<open>
  \<^verbatim>\<open>Math.random()\<close> reads a global generator. The model threads the generator
  through the code as the stream of the numbers still to come: a draw returns the head
  and leaves the tail. JavaScript promises each number to lie in \<open>[0, 1)\<close>
  (\<open>unit_rng\<close>).
\<close>

type_synonym rng = "nat \<Rightarrow> real"

definition Math_random :: "rng \<Rightarrow> real \<times> rng" where
  "Math_random g = (g 0, \<lambda>n. g (Suc n))"

definition unit_rng :: "rng \<Rightarrow> bool" where
  "unit_rng g = (\<forall>n. 0 \<le> g n \<and> g n < 1)"

text \<open>
  JavaScript's \<^verbatim>\<open>/\<close> does not raise on a zero divisor (it yields an infinity or
  NaN). To make "no division by zero occurs" a statement about the code, the divisions
  whose divisor is computed report a zero divisor as a fault, and a fault ends the
  computation.
\<close>

datatype fault = DivisionByZero

definition js_div :: "real \<Rightarrow> real \<Rightarrow> fault + real" where
  "js_div a b = (if b = 0 then Inl DivisionByZero else Inr (a / b))"

text \<open>The \<^verbatim>\<open>for\<close> loop whose body may end in a fault.\<close>

function for_loop_chk ::
  "nat \<Rightarrow> nat \<Rightarrow> (nat \<Rightarrow> 's \<Rightarrow> fault + 's) \<Rightarrow> 's \<Rightarrow> fault + 's" where
  "for_loop_chk i n body s =
     (if i < n then
        (case body i s of Inl e \<Rightarrow> Inl e | Inr s' \<Rightarrow> for_loop_chk (Suc i) n body s')
      else Inr s)"
  by pat_completeness auto
termination
  by (relation "measure (\<lambda>(i, n, body, s). n - i)") auto

declare for_loop_chk.simps [simp del]

text \<open>
  The buffers are typed arrays (\<^verbatim>\<open>Float32Array\<close>), modelled as lists of reals: a
  write \<open>xs[k := v]\<close> beyond the end changes nothing, as in a typed array; every read
  in the theorems below is within the length.
\<close>

section \<open>Instanced shapes (InstancedShape)\<close>

subsection \<open>Target positions (the targets memo)\<close>

type_synonym color = "real \<times> real \<times> real"

text \<open>
  \<^verbatim>\<open>THREE.Color\<close> is a library class. Its two methods used here are parameters:
  \<open>Color_set\<close> is the colour \<^verbatim>\<open>set(style)\<close> gives for a style string, and
  \<open>Color_offsetHSL\<close> is \<^verbatim>\<open>offsetHSL(0, 0, 0.2)\<close> as a function of the colour.
\<close>

record three =
  Color_set :: "string \<Rightarrow> color"
  Color_offsetHSL :: "color \<Rightarrow> color"

text \<open>
  The object the memo returns: \<^verbatim>\<open>{ tree, explode, colorArray }\<close>. The loop of the
  memo mutates these three arrays, \<^verbatim>\<open>tempColor\<close> and the random generator.
\<close>

record target_buffers =
  tree :: "real list"
  explode :: "real list"
  colorArray :: "real list"

type_synonym placement = "target_buffers \<times> color \<times> rng"

text \<open>
  \<^verbatim>\<open>
  const level = (y + 5) / 10; // 0 to 1
  const radius = 3.5 * (1 - level) + 0.2; // Cone shape
  \<close>
\<close>

definition cone_radius :: "real \<Rightarrow> real" where
  "cone_radius y = (let level = (y + 5) / 10 in 3.5 * (1 - level) + 0.2)"

text \<open>
  The body of the loop for instance \<open>i\<close>:
  \<^verbatim>\<open>
  const y = (i / count) * 10 - 5;
  const level = (y + 5) / 10;
  const radius = 3.5 * (1 - level) + 0.2;
  const theta = i * 2.39996;
  const x = radius * Math.cos(theta);
  const z = radius * Math.sin(theta);
  const jitter = 0.3;
  tree[i * 3] = x + (Math.random() - 0.5) * jitter;
  tree[i * 3 + 1] = y;
  tree[i * 3 + 2] = z + (Math.random() - 0.5) * jitter;
  const phi = Math.acos(-1 + (2 * i) / count);
  const sqrtPi = Math.sqrt(count * Math.PI) * phi;
  const exRadius = 15 + Math.random() * 10;
  explode[i * 3] = exRadius * Math.cos(sqrtPi) * Math.sin(phi);
  explode[i * 3 + 1] = exRadius * Math.sin(sqrtPi) * Math.sin(phi);
  explode[i * 3 + 2] = exRadius * Math.cos(phi);
  const colorHex = colors[Math.floor(Math.random() * colors.length)];
  tempColor.set(colorHex);
  if (Math.random() > 0.8) tempColor.offsetHSL(0, 0, 0.2);
  colorArray[i * 3] = tempColor.r;
  colorArray[i * 3 + 1] = tempColor.g;
  colorArray[i * 3 + 2] = tempColor.b;
  \<close>
  With an empty palette \<^verbatim>\<open>colorHex\<close> is undefined and \<^verbatim>\<open>set\<close> leaves the colour
  as it is.
\<close>

definition placeInstance ::
  "three \<Rightarrow> string list \<Rightarrow> nat \<Rightarrow> nat \<Rightarrow> placement \<Rightarrow> fault + placement" where
  "placeInstance T colors count i st =
     (let (bufs, tempColor, g) = st in
      case js_div (real i) (real count) of
        Inl e \<Rightarrow> Inl e
      | Inr q \<Rightarrow>
          (let y = q * 10 - 5;
               radius = cone_radius y;
               theta = real i * 2.39996;
               x = radius * cos theta;
               z = radius * sin theta;
               jitter = 0.3;
               (u1, g1) = Math_random g;
               tree1 = (tree bufs)[i * 3 := x + (u1 - 0.5) * jitter];
               tree2 = tree1[i * 3 + 1 := y];
               (u2, g2) = Math_random g1;
               tree3 = tree2[i * 3 + 2 := z + (u2 - 0.5) * jitter]
           in case js_div (2 * real i) (real count) of
                Inl e \<Rightarrow> Inl e
              | Inr q2 \<Rightarrow>
                  (let phi = arccos (- 1 + q2);
                       sqrtPi = sqrt (real count * pi) * phi;
                       (u3, g3) = Math_random g2;
                       exRadius = 15 + u3 * 10;
                       ex1 = (explode bufs)[i * 3 := exRadius * cos sqrtPi * sin phi];
                       ex2 = ex1[i * 3 + 1 := exRadius * sin sqrtPi * sin phi];
                       ex3 = ex2[i * 3 + 2 := exRadius * cos phi];
                       (u4, g4) = Math_random g3;
                       k = nat \<lfloor>u4 * real (length colors)\<rfloor>;
                       c1 = (if k < length colors then Color_set T (colors ! k)
                             else tempColor);
                       (u5, g5) = Math_random g4;
                       c2 = (if u5 > 0.8 then Color_offsetHSL T c1 else c1);
                       col1 = (colorArray bufs)[i * 3 := fst c2];
                       col2 = col1[i * 3 + 1 := fst (snd c2)];
                       col3 = col2[i * 3 + 2 := snd (snd c2)]
                   in Inr (\<lparr>tree = tree3, explode = ex3, colorArray = col3\<rparr>, c2, g5))))"

text \<open>
  The memo: three fresh arrays of \<open>count * 3\<close> zeros, a fresh (white)
  \<^verbatim>\<open>tempColor\<close>, then the loop over the instances. The result is the returned
  object and the generator it leaves behind.
\<close>

definition targets ::
  "three \<Rightarrow> string list \<Rightarrow> nat \<Rightarrow> rng \<Rightarrow> fault + (target_buffers \<times> rng)" where
  "targets T colors count g =
     (case for_loop_chk 0 count (placeInstance T colors count)
             (\<lparr>tree = replicate (count * 3) 0, explode = replicate (count * 3) 0,
               colorArray = replicate (count * 3) 0\<rparr>, (1, 1, 1), g) of
        Inl e \<Rightarrow> Inl e
      | Inr (bufs, tempColor, g') \<Rightarrow> Inr (bufs, g'))"

subsection \<open>The animation loop (useFrame)\<close>

text \<open>
  The position part of the loop body for instance \<open>i\<close>; \<open>lambda\<close> is the
  \<^verbatim>\<open>const lambda = 4 * delta\<close> of the frame.
  \<^verbatim>\<open>
  const cx = currentPositions.current[ix]; ...
  const tx = targetArray[ix]; ...
  const nx = cx + (tx - cx) * lambda; ...
  currentPositions.current[ix] = nx; ...
  \<close>
\<close>

definition moveInstance :: "real list \<Rightarrow> real \<Rightarrow> nat \<Rightarrow> real list \<Rightarrow> real list" where
  "moveInstance targetArray lambda i cur =
     (let ix = i * 3; iy = i * 3 + 1; iz = i * 3 + 2;
          cx = cur ! ix; cy = cur ! iy; cz = cur ! iz;
          tx = targetArray ! ix; ty = targetArray ! iy; tz = targetArray ! iz;
          nx = cx + (tx - cx) * lambda;
          ny = cy + (ty - cy) * lambda;
          nz = cz + (tz - cz) * lambda
      in cur[ix := nx, iy := ny, iz := nz])"

text \<open>
  One frame on \<^verbatim>\<open>currentPositions\<close>. \<open>mounted\<close> is whether
  \<^verbatim>\<open>meshRef.current\<close> is set (the callback returns at once when it is not). The
  rotation, the scale and the matrix written to the mesh are functions of the time and
  the new position and keep no state; they are not modelled.
  \<^verbatim>\<open>
  let targetArray = targets.tree;
  if (mode === InteractionState.Exploded) targetArray = targets.explode;
  const lambda = 4 * delta;
  for (let i = 0; i < count; i++) { ... }
  \<close>
\<close>

definition InstancedShape_useFrame ::
  "bool \<Rightarrow> target_buffers \<Rightarrow> InteractionState \<Rightarrow> nat \<Rightarrow> real \<Rightarrow> real list \<Rightarrow> real list" where
  "InstancedShape_useFrame mounted tg mode count delta cur =
     (if \<not> mounted then cur
      else
        (let targetArray = (if mode = Exploded then explode tg else tree tg);
             lambda = 4 * delta
         in for_loop 0 count (moveInstance targetArray lambda) cur))"

text \<open>
  \<^verbatim>\<open>currentPositions\<close> is a \<^verbatim>\<open>Float32Array\<close>: each of the three stores of the
  loop body rounds the number to single precision. \<open>moveInstance\<close> above is the body
  with exact stores. \<open>moveInstance_stored\<close> is the same body with the rounding of
  the store written out: \<open>fround\<close> is the rounding function
  (\<^verbatim>\<open>Math.fround\<close>), a parameter; with \<open>fround = (\<lambda>x. x)\<close> it is the exact body.
  The arithmetic of the right-hand sides is exact in both.
\<close>

definition moveInstance_stored ::
  "(real \<Rightarrow> real) \<Rightarrow> real list \<Rightarrow> real \<Rightarrow> nat \<Rightarrow> real list \<Rightarrow> real list" where
  "moveInstance_stored fround targetArray lambda i cur =
     (let ix = i * 3; iy = i * 3 + 1; iz = i * 3 + 2;
          cx = cur ! ix; cy = cur ! iy; cz = cur ! iz;
          tx = targetArray ! ix; ty = targetArray ! iy; tz = targetArray ! iz;
          nx = cx + (tx - cx) * lambda;
          ny = cy + (ty - cy) * lambda;
          nz = cz + (tz - cz) * lambda
      in cur[ix := fround nx, iy := fround ny, iz := fround nz])"

definition InstancedShape_useFrame_stored ::
  "(real \<Rightarrow> real) \<Rightarrow> bool \<Rightarrow> target_buffers \<Rightarrow> InteractionState \<Rightarrow> nat \<Rightarrow> real \<Rightarrow>
   real list \<Rightarrow> real list" where
  "InstancedShape_useFrame_stored fround mounted tg mode count delta cur =
     (if \<not> mounted then cur
      else
        (let targetArray = (if mode = Exploded then explode tg else tree tg);
             lambda = 4 * delta
         in for_loop 0 count (moveInstance_stored fround targetArray lambda) cur))"

text \<open>
  What is used of a rounding to a number format: it is monotone, and it leaves the
  numbers of the format (its own results) as they are. Rounding to nearest has both
  properties.
\<close>

definition rounding :: "(real \<Rightarrow> real) \<Rightarrow> bool" where
  "rounding fround = (mono fround \<and> (\<forall>x. fround (fround x) = fround x))"

text \<open>
  Rounding to the nearest multiple of \<open>2 ^ - 24\<close>. The single-precision numbers
  between 1/2 and 1 are these multiples, so this is the store's rounding for a result
  in that range (a tie, which single precision rounds to even, is rounded up here).
\<close>

definition fround_grid :: "real \<Rightarrow> real" where
  "fround_grid x = of_int (round (x * 2 ^ 24)) / 2 ^ 24"


text \<open>The buffer the frames of a mode chase.\<close>

definition active_target :: "target_buffers \<Rightarrow> InteractionState \<Rightarrow> real list" where
  "active_target tg mode = (if mode = Exploded then explode tg else tree tg)"


section \<open>Snow (SnowSystem)\<close>

text \<open>
  The particle array holds six numbers per particle:
  \<^verbatim>\<open>[x, y, z, velocityY, wobblePhase, state]\<close>, state 0 for falling and 1 for landed.
  The frame loop treats every state other than 0 as landed.
\<close>

definition falling :: "real list \<Rightarrow> nat \<Rightarrow> bool" where
  "falling data i = (data ! (i * 6 + 5) = 0)"

definition landed_count :: "nat \<Rightarrow> real list \<Rightarrow> nat" where
  "landed_count count data = length (filter (\<lambda>i. \<not> falling data i) [0..<count])"

text \<open>
  \<^verbatim>\<open>
  function resetParticle(data, i, fullRandomY = false) {
    const i6 = i * 6;
    const radius = 45.0;
    const r = Math.sqrt(Math.random()) * radius;
    const theta = Math.random() * Math.PI * 2;
    data[i6] = r * Math.cos(theta);
    data[i6 + 1] = fullRandomY ? Math.random() * 40 + 5 : 30 + Math.random() * 15;
    data[i6 + 2] = r * Math.sin(theta);
    data[i6 + 3] = 0.01 + Math.random() * 0.03;
    data[i6 + 4] = Math.random() * Math.PI * 2;
    data[i6 + 5] = 0;
  }
  \<close>
\<close>

definition resetParticle :: "real list \<Rightarrow> nat \<Rightarrow> bool \<Rightarrow> rng \<Rightarrow> real list \<times> rng" where
  "resetParticle data i fullRandomY g =
     (let i6 = i * 6;
          radius = 45.0;
          (u1, g1) = Math_random g;
          r = sqrt u1 * radius;
          (u2, g2) = Math_random g1;
          theta = u2 * pi * 2;
          d1 = data[i6 := r * cos theta];
          (u3, g3) = Math_random g2;
          d2 = d1[i6 + 1 := (if fullRandomY then u3 * 40 + 5 else 30 + u3 * 15)];
          d3 = d2[i6 + 2 := r * sin theta];
          (u4, g4) = Math_random g3;
          d4 = d3[i6 + 3 := 0.01 + u4 * 0.03];
          (u5, g5) = Math_random g4;
          d5 = d4[i6 + 4 := u5 * pi * 2];
          d6 = d5[i6 + 5 := 0]
      in (d6, g5))"

text \<open>The particles memo: a fresh array, every particle reset with a fully random height.\<close>

definition SnowSystem_particles :: "nat \<Rightarrow> rng \<Rightarrow> real list \<times> rng" where
  "SnowSystem_particles count g =
     for_loop 0 count (\<lambda>i (data, g'). resetParticle data i True g')
       (replicate (count * 6) 0, g)"

text \<open>
  The mode effect. It runs when \<^verbatim>\<open>mode\<close> changes, with the previous mode kept in a
  ref; the result is the particles, the generator and the new value of the ref.
  \<^verbatim>\<open>
  if (prevMode.current === InteractionState.Exploded && mode === InteractionState.Tree) {
    for (let i = 0; i < count; i++) {
      resetParticle(particles, i, false); // false = spawn at top
    }
  }
  prevMode.current = mode;
  \<close>
\<close>

definition SnowSystem_useEffect ::
  "nat \<Rightarrow> InteractionState \<Rightarrow> InteractionState \<Rightarrow> real list \<times> rng \<Rightarrow>
   (real list \<times> rng) \<times> InteractionState" where
  "SnowSystem_useEffect count prevMode mode st =
     ((if prevMode = Exploded \<and> mode = Tree then
         for_loop 0 count (\<lambda>i (data, g). resetParticle data i False g) st
       else st),
      mode)"

definition groundLevel :: real where
  "groundLevel = - 5.0"

definition accumulationRadius :: real where
  "accumulationRadius = 4.5"

definition accumulationHeight :: real where
  "accumulationHeight = 0.2"

text \<open>
  The Tree branch of the frame loop for particle \<open>i\<close>:
  \<^verbatim>\<open>
  if (particles[i6 + 5] === 0) {
    particles[i6 + 1] -= particles[i6 + 3] * (delta * 60);
    particles[i6] += Math.sin(time + particles[i6 + 4]) * 0.005;
    particles[i6 + 2] += Math.cos(time * 0.8 + particles[i6 + 4]) * 0.005;
    const localGround = groundLevel + Math.random() * accumulationHeight;
    if (particles[i6 + 1] <= localGround) {
      const distSq = particles[i6] * particles[i6] + particles[i6 + 2] * particles[i6 + 2];
      if (distSq < accumulationRadius * accumulationRadius) {
        particles[i6 + 1] = localGround;
        particles[i6 + 5] = 1;
      } else {
        resetParticle(particles, i, false);
      }
    }
  } else {
    if (Math.random() < 0.001) {
       resetParticle(particles, i, false);
    }
  }
  \<close>
\<close>

definition treeParticle :: "real \<Rightarrow> real \<Rightarrow> nat \<Rightarrow> real list \<times> rng \<Rightarrow> real list \<times> rng" where
  "treeParticle time delta i st =
     (let (data, g) = st; i6 = i * 6 in
      if data ! (i6 + 5) = 0 then
        (let d1 = data[i6 + 1 := data ! (i6 + 1) - data ! (i6 + 3) * (delta * 60)];
             d2 = d1[i6 := d1 ! i6 + sin (time + d1 ! (i6 + 4)) * 0.005];
             d3 = d2[i6 + 2 := d2 ! (i6 + 2) + cos (time * 0.8 + d2 ! (i6 + 4)) * 0.005];
             (u, g1) = Math_random g;
             localGround = groundLevel + u * accumulationHeight
         in if d3 ! (i6 + 1) \<le> localGround then
              (let distSq = d3 ! i6 * d3 ! i6 + d3 ! (i6 + 2) * d3 ! (i6 + 2) in
               if distSq < accumulationRadius * accumulationRadius then
                 (d3[i6 + 1 := localGround, i6 + 5 := 1], g1)
               else resetParticle d3 i False g1)
            else (d3, g1))
      else
        (let (u, g1) = Math_random g in
         if u < 0.001 then resetParticle data i False g1 else (data, g1)))"

text \<open>
  The Exploded branch for particle \<open>i\<close>; the three divisions by the computed length
  are checked.
  \<^verbatim>\<open>
  const x = particles[i6]; const y = particles[i6 + 1]; const z = particles[i6 + 2];
  const len = Math.sqrt(x*x + y*y + z*z) + 0.01;
  const speed = 15 * delta;
  particles[i6] += (x / len) * speed;
  particles[i6 + 1] += (y / len) * speed;
  particles[i6 + 2] += (z / len) * speed;
  particles[i6] += (Math.random() - 0.5) * 0.2;
  particles[i6 + 1] += (Math.random() - 0.5) * 0.2;
  particles[i6 + 2] += (Math.random() - 0.5) * 0.2;
  particles[i6 + 5] = 0;
  \<close>
\<close>

definition explodeParticle ::
  "real \<Rightarrow> nat \<Rightarrow> real list \<times> rng \<Rightarrow> fault + (real list \<times> rng)" where
  "explodeParticle delta i st =
     (let (data, g) = st; i6 = i * 6;
          x = data ! i6; y = data ! (i6 + 1); z = data ! (i6 + 2);
          len = sqrt (x * x + y * y + z * z) + 0.01;
          speed = 15 * delta
      in case js_div x len of
           Inl e \<Rightarrow> Inl e
         | Inr qx \<Rightarrow>
             (let d1 = data[i6 := data ! i6 + qx * speed] in
              case js_div y len of
                Inl e \<Rightarrow> Inl e
              | Inr qy \<Rightarrow>
                  (let d2 = d1[i6 + 1 := d1 ! (i6 + 1) + qy * speed] in
                   case js_div z len of
                     Inl e \<Rightarrow> Inl e
                   | Inr qz \<Rightarrow>
                       (let d3 = d2[i6 + 2 := d2 ! (i6 + 2) + qz * speed];
                            (u1, g1) = Math_random g;
                            d4 = d3[i6 := d3 ! i6 + (u1 - 0.5) * 0.2];
                            (u2, g2) = Math_random g1;
                            d5 = d4[i6 + 1 := d4 ! (i6 + 1) + (u2 - 0.5) * 0.2];
                            (u3, g3) = Math_random g2;
                            d6 = d5[i6 + 2 := d5 ! (i6 + 2) + (u3 - 0.5) * 0.2];
                            d7 = d6[i6 + 5 := 0]
                        in Inr (d7, g3)))))"

text \<open>
  One frame of the snow: nothing when the mesh is not mounted, otherwise the loop over
  the particles, each taking the branch of the mode. The instance matrix written to the
  mesh keeps no state and is not modelled.
\<close>

definition snowParticle ::
  "InteractionState \<Rightarrow> real \<Rightarrow> real \<Rightarrow> nat \<Rightarrow> real list \<times> rng \<Rightarrow> fault + (real list \<times> rng)" where
  "snowParticle mode time delta i st =
     (if mode = Tree then Inr (treeParticle time delta i st)
      else explodeParticle delta i st)"

definition SnowSystem_useFrame ::
  "bool \<Rightarrow> InteractionState \<Rightarrow> real \<Rightarrow> real \<Rightarrow> nat \<Rightarrow> real list \<times> rng \<Rightarrow>
   fault + (real list \<times> rng)" where
  "SnowSystem_useFrame mounted mode time delta count st =
     (if \<not> mounted then Inr st
      else for_loop_chk 0 count (snowParticle mode time delta) st)"

text \<open>The component fixes the number of particles: \<^verbatim>\<open>const count = 6000\<close>.\<close>

definition snow_count :: nat where
  "snow_count = 6000"

section \<open>Shared lemmas\<close>

subsection \<open>Loops by invariant\<close>

lemma for_loop_rule:
  assumes "P i s"
    and "\<And>k t. i \<le> k \<Longrightarrow> k < n \<Longrightarrow> P k t \<Longrightarrow> P (Suc k) (body k t)"
    and "i \<le> n"
  shows "P n (for_loop i n body s)"
  using assms
proof (induction i n body s rule: for_loop.induct)
  case (1 i n body s)
  show ?case
  proof (cases "i < n")
    case True
    have "P (Suc i) (body i s)" using "1.prems" True by simp
    moreover have "\<And>k t. Suc i \<le> k \<Longrightarrow> k < n \<Longrightarrow> P k t \<Longrightarrow> P (Suc k) (body k t)"
      using "1.prems"(2) by simp
    ultimately have "P n (for_loop (Suc i) n body (body i s))"
      using "1.IH" True by simp
    then show ?thesis using True by (subst for_loop.simps) simp
  next
    case False
    then have "i = n" using "1.prems"(3) by simp
    then show ?thesis using "1.prems"(1) by (subst for_loop.simps) simp
  qed
qed

lemma for_loop_chk_rule:
  assumes "P i s"
    and "\<And>k t. i \<le> k \<Longrightarrow> k < n \<Longrightarrow> P k t \<Longrightarrow> \<exists>t'. body k t = Inr t' \<and> P (Suc k) t'"
    and "i \<le> n"
  shows "\<exists>s'. for_loop_chk i n body s = Inr s' \<and> P n s'"
  using assms
proof (induction i n body s rule: for_loop_chk.induct)
  case (1 i n body s)
  show ?case
  proof (cases "i < n")
    case True
    obtain t' where t': "body i s = Inr t'" "P (Suc i) t'"
      using "1.prems"(1,2) True by blast
    have "\<And>k t. Suc i \<le> k \<Longrightarrow> k < n \<Longrightarrow> P k t \<Longrightarrow>
        \<exists>t'. body k t = Inr t' \<and> P (Suc k) t'"
      using "1.prems"(2) by simp
    then have "\<exists>s'. for_loop_chk (Suc i) n body t' = Inr s' \<and> P n s'"
      using "1.IH" [OF True t'(1) t'(2)] True by simp
    then show ?thesis using True t'(1) by (subst for_loop_chk.simps) simp
  next
    case False
    then have "i = n" using "1.prems"(3) by simp
    then show ?thesis using "1.prems"(1) by (subst for_loop_chk.simps) simp
  qed
qed

subsection \<open>The random generator\<close>

lemma unit_rng_tail: "unit_rng g \<Longrightarrow> unit_rng (\<lambda>n. g (n + k))"
  by (simp add: unit_rng_def)

lemma unit_rng_Suc: "unit_rng g \<Longrightarrow> unit_rng (\<lambda>n. g (Suc n))"
  by (simp add: unit_rng_def)

lemma Suc_numerals:
  "Suc (Suc 0) = 2" "Suc (Suc (Suc 0)) = 3" "Suc (Suc (Suc (Suc 0))) = 4"
  "Suc (Suc (Suc n)) = n + 3" "Suc (Suc (Suc (Suc (Suc n)))) = n + 5"
  by simp_all

lemma unit_rng_bounds: "unit_rng g \<Longrightarrow> 0 \<le> g n \<and> g n < 1"
  by (simp add: unit_rng_def)

section \<open>Properties of the gesture mapping\<close>

subsection \<open>The tracker is the hysteresis block on the smoothed ratios\<close>

lemma gesture_events_hysteresis:
  "gesture_events t fs =
   hysteresis_events (isOpenState t) (smoothed_ratios (smoothedRatio t) fs)"
proof (induction fs arbitrary: t)
  case Nil
  show ?case by simp
next
  case (Cons f fs)
  show ?case
  proof (cases f)
    case None
    then show ?thesis using Cons.IH [of t] by (simp add: predictWebcam_def)
  next
    case (Some p)
    obtain rawRatio wristX where p: "p = (rawRatio, wristX)" by (cases p)
    show ?thesis
      using Cons.IH
      by (simp add: Some p predictWebcam_def Let_def split: prod.splits option.splits)
  qed
qed

lemma hysteresis_events_stays_open:
  "sorted rs \<Longrightarrow> \<forall>r\<in>set rs. 1.25 \<le> r \<Longrightarrow> hysteresis_events True rs = []"
  by (induction rs) (auto simp: hysteresis_def)

lemma hysteresis_events_stays_closed:
  "\<forall>r\<in>set rs. r \<le> 1.35 \<Longrightarrow> hysteresis_events False rs = []"
  by (induction rs) (auto simp: hysteresis_def)

lemma hysteresis_events_rising:
  "sorted rs \<Longrightarrow> \<exists>r\<in>set rs. 1.35 < r \<Longrightarrow> hysteresis_events False rs = [True]"
proof (induction rs)
  case Nil
  then show ?case by simp
next
  case (Cons a rs)
  have srt: "sorted rs" using Cons.prems(1) by simp
  show ?case
  proof (cases "1.35 < a")
    case True
    have "\<forall>r\<in>set rs. 1.25 \<le> r" using Cons.prems(1) True by fastforce
    with srt have "hysteresis_events True rs = []"
      by (rule hysteresis_events_stays_open)
    then show ?thesis using True by (simp add: hysteresis_def)
  next
    case False
    then have "\<exists>r\<in>set rs. 1.35 < r" using Cons.prems(2) by auto
    with srt have "hysteresis_events False rs = [True]" using Cons.IH by blast
    then show ?thesis using False by (simp add: hysteresis_def)
  qed
qed

lemma alternating_Cons:
  "alternating (a # es) = ((es = [] \<or> hd es \<noteq> a) \<and> alternating es)"
  by (cases es) auto

text \<open>
  From any open flag the events alternate, and the first one (if any) is the opposite of
  the flag.
\<close>

lemma hysteresis_events_alternating:
  "alternating (hysteresis_events b rs) \<and>
   (hysteresis_events b rs = [] \<or> hd (hysteresis_events b rs) = (\<not> b))"
proof (induction rs arbitrary: b)
  case Nil
  show ?case by simp
next
  case (Cons r rs)
  show ?case
    using Cons.IH [of True] Cons.IH [of False] Cons.IH [of b]
    by (auto simp: hysteresis_def alternating_Cons)
qed

subsection \<open>C3: one Open on a rising sequence, nothing inside the band\<close>

text \<open>
  Claim C3. The hysteresis block is fed smoothed ratios, starting closed
  (\<open>isOpenState = False\<close>). A monotonically increasing sequence with a value above
  1.35 makes exactly one call, \<^verbatim>\<open>onGestureChange(true)\<close>; a sequence that stays in
  \<open>[1.25, 1.35]\<close> makes no call. In one step, Open is emitted exactly when the flag is
  closed and the ratio is above 1.35, Close exactly when the flag is open and the ratio
  is below 1.25; when nothing is emitted the flag is unchanged. The calls the tracker
  makes over a sequence of video frames are those of the hysteresis block on the
  smoothed ratios of the frames.
\<close>

theorem hysteresis_from_closed:
  "(sorted rs \<and> (\<exists>r\<in>set rs. 1.35 < r) \<longrightarrow> hysteresis_events False rs = [True]) \<and>
   ((\<forall>r\<in>set rs. 1.25 \<le> r \<and> r \<le> 1.35) \<longrightarrow> hysteresis_events False rs = []) \<and>
   (snd (hysteresis isOpen ratio) = Some True \<longleftrightarrow> \<not> isOpen \<and> 1.35 < ratio) \<and>
   (snd (hysteresis isOpen ratio) = Some False \<longleftrightarrow> isOpen \<and> ratio < 1.25) \<and>
   (snd (hysteresis isOpen ratio) = None \<longrightarrow> fst (hysteresis isOpen ratio) = isOpen) \<and>
   gesture_events t fs =
     hysteresis_events (isOpenState t) (smoothed_ratios (smoothedRatio t) fs)"
proof (intro conjI impI)
  assume "sorted rs \<and> (\<exists>r\<in>set rs. 1.35 < r)"
  then show "hysteresis_events False rs = [True]"
    using hysteresis_events_rising by blast
next
  assume "\<forall>r\<in>set rs. 1.25 \<le> r \<and> r \<le> 1.35"
  then show "hysteresis_events False rs = []"
    using hysteresis_events_stays_closed by blast
next
  show "snd (hysteresis isOpen ratio) = Some True \<longleftrightarrow> \<not> isOpen \<and> 1.35 < ratio"
    by (simp add: hysteresis_def)
next
  show "snd (hysteresis isOpen ratio) = Some False \<longleftrightarrow> isOpen \<and> ratio < 1.25"
    by (simp add: hysteresis_def)
next
  assume "snd (hysteresis isOpen ratio) = None"
  then show "fst (hysteresis isOpen ratio) = isOpen"
    by (auto simp: hysteresis_def split: if_splits)
next
  show "gesture_events t fs =
     hysteresis_events (isOpenState t) (smoothed_ratios (smoothedRatio t) fs)"
    by (rule gesture_events_hysteresis)
qed

theorem hysteresis_from_closed_witness:
  "sorted [1.2, 1.3, 1.4 :: real] \<and> (\<exists>r\<in>set [1.2, 1.3, 1.4 :: real]. 1.35 < r) \<and>
   hysteresis_events False [1.2, 1.3, 1.4] = [True] \<and>
   list_all (\<lambda>r. 1.25 \<le> r \<and> r \<le> 1.35) [1.3, 1.25, 1.35, 1.3 :: real] \<and>
   hysteresis_events False [1.3, 1.25, 1.35, 1.3] = [] \<and>
   snd (hysteresis True 1.3) = None \<and> fst (hysteresis True 1.3) = True"
proof -
  have "(1.4 :: real) \<in> set [1.2, 1.3, 1.4] \<and> (1.35 :: real) < 1.4"
    by simp
  then have "\<exists>r\<in>set [1.2, 1.3, 1.4 :: real]. 1.35 < r"
    by blast
  then have a: "sorted [1.2, 1.3, 1.4 :: real] \<and> (\<exists>r\<in>set [1.2, 1.3, 1.4 :: real]. 1.35 < r)"
    by simp
  have b: "\<forall>r\<in>set [1.3, 1.25, 1.35, 1.3 :: real]. 1.25 \<le> r \<and> r \<le> 1.35"
    by simp
  have c: "snd (hysteresis True 1.3) = None"
    by (simp add: hysteresis_def)
  show ?thesis
    using a b c
      hysteresis_from_closed [where rs = "[1.2, 1.3, 1.4]" and isOpen = True and ratio = "1.3"]
      hysteresis_from_closed [where rs = "[1.3, 1.25, 1.35, 1.3]"]
    by simp
qed

subsection \<open>C10: the events alternate\<close>

text \<open>
  Claim C10. For every tracker state and every sequence of video frames (with or without
  a hand), the \<^verbatim>\<open>onGestureChange\<close> calls alternate: no two consecutive calls carry
  the same value, so an Open is followed by a Close and a Close by an Open.
\<close>

theorem gesture_events_alternate: "alternating (gesture_events t fs)"
  using hysteresis_events_alternating
    [of "isOpenState t" "smoothed_ratios (smoothedRatio t) fs"]
  by (simp add: gesture_events_hysteresis)

theorem gesture_events_alternate_witness:
  "gesture_events tracker_init [Some (2, 0.5), None, Some (2, 0.5), Some (0, 0.5), Some (0, 0.5)]
     = [True, False] \<and>
   alternating (gesture_events tracker_init
     [Some (2, 0.5), None, Some (2, 0.5), Some (0, 0.5), Some (0, 0.5)])"
proof -
  have "gesture_events tracker_init
      [Some (2, 0.5), None, Some (2, 0.5), Some (0, 0.5), Some (0, 0.5)] = [True, False]"
    by (simp add: tracker_init_def predictWebcam_def smooth_def hysteresis_def Let_def)
  then show ?thesis
    using gesture_events_alternate [of tracker_init
      "[Some (2, 0.5), None, Some (2, 0.5), Some (0, 0.5), Some (0, 0.5)]"]
    by simp
qed

subsection \<open>C4: dead zone and linear gain\<close>

text \<open>
  Claim C4. The rotation speed is 0 for every \<open>x\<close> in the dead zone \<open>[0.45, 0.55]\<close>,
  \<open>(x - 0.55) * 6\<close> for \<open>x > 0.55\<close> and \<open>- ((0.45 - x) * 6)\<close> for \<open>x < 0.45\<close>; so
  0.5 gives 0, 0.8 gives 1.5 and 0.2 gives -1.5.
\<close>

theorem handleHandMove_spec:
  "(0.45 \<le> x \<and> x \<le> 0.55 \<longrightarrow> handleHandMove x = 0) \<and>
   (0.55 < x \<longrightarrow> handleHandMove x = (x - 0.55) * 6.0) \<and>
   (x < 0.45 \<longrightarrow> handleHandMove x = - ((0.45 - x) * 6.0)) \<and>
   handleHandMove 0.5 = 0 \<and> handleHandMove 0.8 = 1.5 \<and> handleHandMove 0.2 = - 1.5"
  by (simp add: handleHandMove_def CENTER_def DEADZONE_def SENSITIVITY_def Let_def)

theorem handleHandMove_spec_witness:
  "(0.45 :: real) \<le> 0.5 \<and> (0.5 :: real) \<le> 0.55 \<and> handleHandMove 0.5 = 0 \<and>
   (0.55 :: real) < 0.75 \<and> handleHandMove 0.75 = (0.75 - 0.55) * 6.0 \<and>
   (0.25 :: real) < 0.45 \<and> handleHandMove 0.25 = - ((0.45 - 0.25) * 6.0)"
  using handleHandMove_spec [of "0.5"] handleHandMove_spec [of "0.75"]
    handleHandMove_spec [of "0.25"]
  by simp

section \<open>Properties of the damped interpolation\<close>

subsection \<open>What one frame does to the position array\<close>

text \<open>
  The state of the loop before instance \<open>k\<close>: the coordinates of the instances below
  \<open>k\<close> have moved, the others are as they were.
\<close>

lemma moveInstance_stored_step:
  assumes len: "length c = length cur"
    and at: "\<forall>j < length cur.
      c ! j = (if j < k * 3 then f (cur ! j + (tgt ! j - cur ! j) * l) else cur ! j)"
    and k: "k * 3 + 2 < length cur"
  shows "length (moveInstance_stored f tgt l k c) = length cur \<and>
    (\<forall>j < length cur. moveInstance_stored f tgt l k c ! j =
      (if j < Suc k * 3 then f (cur ! j + (tgt ! j - cur ! j) * l) else cur ! j))"
proof (intro conjI allI impI)
  show "length (moveInstance_stored f tgt l k c) = length cur"
    by (simp add: moveInstance_stored_def Let_def len)
next
  fix j assume j: "j < length cur"
  have c0: "c ! (k * 3) = cur ! (k * 3)" using at k by simp
  have c1: "c ! (k * 3 + 1) = cur ! (k * 3 + 1)" using at k by simp
  have c2: "c ! (k * 3 + 2) = cur ! (k * 3 + 2)" using at k by simp
  have cj: "c ! j = (if j < k * 3 then f (cur ! j + (tgt ! j - cur ! j) * l) else cur ! j)"
    using at j by simp
  consider "j < k * 3" | "j = k * 3" | "j = k * 3 + 1" | "j = k * 3 + 2" | "k * 3 + 2 < j"
    by linarith
  then show "moveInstance_stored f tgt l k c ! j =
      (if j < Suc k * 3 then f (cur ! j + (tgt ! j - cur ! j) * l) else cur ! j)"
  proof cases
    case 1
    then show ?thesis using cj j len by (simp add: moveInstance_stored_def Let_def)
  next
    case 2
    then show ?thesis using j len c0 by (simp add: moveInstance_stored_def Let_def)
  next
    case 3
    then show ?thesis using j len c1 by (simp add: moveInstance_stored_def Let_def)
  next
    case 4
    then show ?thesis using j len c2 by (simp add: moveInstance_stored_def Let_def)
  next
    case 5
    then show ?thesis using cj j len by (simp add: moveInstance_stored_def Let_def)
  qed
qed

lemma for_loop_moveInstance_stored:
  assumes "length cur = count * 3"
  shows "length (for_loop 0 count (moveInstance_stored f tgt l) cur) = length cur \<and>
    (\<forall>j < length cur. for_loop 0 count (moveInstance_stored f tgt l) cur ! j =
      (if j < count * 3 then f (cur ! j + (tgt ! j - cur ! j) * l) else cur ! j))"
proof (rule for_loop_rule [where P = "\<lambda>k c. length c = length cur \<and>
    (\<forall>j < length cur. c ! j =
      (if j < k * 3 then f (cur ! j + (tgt ! j - cur ! j) * l) else cur ! j))"])
  show "length cur = length cur \<and>
    (\<forall>j<length cur. cur ! j =
      (if j < 0 * 3 then f (cur ! j + (tgt ! j - cur ! j) * l) else cur ! j))"
    by simp
next
  fix k t
  assume "k < count" and inv: "length t = length cur \<and>
    (\<forall>j<length cur. t ! j =
      (if j < k * 3 then f (cur ! j + (tgt ! j - cur ! j) * l) else cur ! j))"
  then have "k * 3 + 2 < length cur" using assms by simp
  with inv show "length (moveInstance_stored f tgt l k t) = length cur \<and>
    (\<forall>j<length cur. moveInstance_stored f tgt l k t ! j =
      (if j < Suc k * 3 then f (cur ! j + (tgt ! j - cur ! j) * l) else cur ! j))"
    by (intro moveInstance_stored_step) simp_all
qed simp

lemma useFrame_stored_nth:
  assumes "length cur = count * 3" "j < count * 3"
  shows "InstancedShape_useFrame_stored f True tg mode count delta cur ! j =
         f (cur ! j + (active_target tg mode ! j - cur ! j) * (4 * delta))"
  using for_loop_moveInstance_stored [OF assms(1), of f "active_target tg mode" "4 * delta"]
    assms
  by (simp add: InstancedShape_useFrame_stored_def active_target_def Let_def)


text \<open>With stores that do not round, the stored frame is the exact frame.\<close>

lemma moveInstance_stored_exact: "moveInstance_stored (\<lambda>x. x) = moveInstance"
  by (intro ext) (simp add: moveInstance_stored_def moveInstance_def)

lemma useFrame_stored_exact:
  "InstancedShape_useFrame_stored (\<lambda>x. x) mounted tg mode count delta cur =
   InstancedShape_useFrame mounted tg mode count delta cur"
  by (simp add: InstancedShape_useFrame_stored_def InstancedShape_useFrame_def
      moveInstance_stored_exact)

lemma useFrame_nth:
  assumes "length cur = count * 3" "j < count * 3"
  shows "InstancedShape_useFrame True tg mode count delta cur ! j =
         cur ! j + (active_target tg mode ! j - cur ! j) * (4 * delta)"
  using useFrame_stored_nth [OF assms, of "\<lambda>x. x" tg mode delta]
  by (simp add: useFrame_stored_exact)



subsection \<open>Frames with rounded stores\<close>




lemma rounding_exact: "rounding (\<lambda>x. x)"
  by (simp add: rounding_def mono_def)


text \<open>
  With the rounded store a coordinate can stop short of its target: at
  \<open>16777209 / 2 ^ 24\<close>, with target 1 and a frame of 1/60 s, the new value rounds back
  to the old one.
\<close>

lemma stored_frame_can_stall:
  "InstancedShape_useFrame_stored fround_grid True
     \<lparr>tree = [1, 1, 1], explode = [0, 0, 0], colorArray = [0, 0, 0]\<rparr> Tree 1 (1 / 60)
     [16777209 / 2 ^ 24, 16777209 / 2 ^ 24, 16777209 / 2 ^ 24] ! 0 = 16777209 / 2 ^ 24"
  by (simp add: useFrame_stored_nth active_target_def fround_grid_def round_def)

subsection \<open>Frames with exact stores\<close>




subsection \<open>C2: the update of one frame\<close>

text \<open>
  Claim C2 as the code has it. In a frame with the mesh mounted, every coordinate of
  every instance \<open>i\<close> of the population moves by
  \<open>current += (target - current) * (4 * deltaTime)\<close>, where the target buffer is the
  tree targets in Tree mode and the exploded targets in Exploded mode. The factor is not
  clamped; it is \<open>min 1 (4 * deltaTime)\<close> whenever \<open>4 * deltaTime \<le> 1\<close>.
\<close>

theorem useFrame_update:
  assumes "length cur = count * 3" "length (tree tg) = count * 3"
    and "length (explode tg) = count * 3" "i < count" "c < 3"
  shows "InstancedShape_useFrame True tg mode count delta cur ! (i * 3 + c) =
           cur ! (i * 3 + c) +
           ((case mode of Tree \<Rightarrow> tree tg | Exploded \<Rightarrow> explode tg) ! (i * 3 + c)
              - cur ! (i * 3 + c)) * (4 * delta) \<and>
         (4 * delta \<le> 1 \<longrightarrow>
            InstancedShape_useFrame True tg mode count delta cur ! (i * 3 + c) =
              cur ! (i * 3 + c) +
              ((case mode of Tree \<Rightarrow> tree tg | Exploded \<Rightarrow> explode tg) ! (i * 3 + c)
                 - cur ! (i * 3 + c)) * min 1 (4 * delta))"
proof -
  have j: "i * 3 + c < count * 3" using assms(4,5) by simp
  have "active_target tg mode = (case mode of Tree \<Rightarrow> tree tg | Exploded \<Rightarrow> explode tg)"
    by (cases mode) (simp_all add: active_target_def)
  then show ?thesis
    using useFrame_nth [OF assms(1) j, of tg mode delta] by (simp add: min_def)
qed

theorem useFrame_update_witness:
  "InstancedShape_useFrame True
     \<lparr>tree = [1, 2, 3], explode = [9, 9, 9], colorArray = [0, 0, 0]\<rparr> Exploded 1 (1 / 8)
     [1, 2, 3] ! (0 * 3 + 1) = 2 + (9 - 2) * (4 * (1 / 8)) \<and>
   InstancedShape_useFrame True
     \<lparr>tree = [1, 2, 3], explode = [9, 9, 9], colorArray = [0, 0, 0]\<rparr> Exploded 1 (1 / 8)
     [1, 2, 3] ! (0 * 3 + 1) = 2 + (9 - 2) * min 1 (4 * (1 / 8))"
  using useFrame_update [of "[1, 2, 3]" 1
      "\<lparr>tree = [1, 2, 3], explode = [9, 9, 9], colorArray = [0, 0, 0]\<rparr>" 0 1 Exploded "1 / 8"]
  by simp

text \<open>
  The claim as stated, with the factor \<open>min 1 (4 * deltaTime)\<close>, fails on a frame of
  half a second: the code moves the coordinate from 0 past the target 1 to 2.
\<close>

theorem useFrame_clamp_counterexample:
  "InstancedShape_useFrame True
     \<lparr>tree = [1, 1, 1], explode = [0, 0, 0], colorArray = [0, 0, 0]\<rparr> Tree 1 (1 / 2)
     [0, 0, 0] ! 0 = 2 \<and>
   InstancedShape_useFrame True
     \<lparr>tree = [1, 1, 1], explode = [0, 0, 0], colorArray = [0, 0, 0]\<rparr> Tree 1 (1 / 2)
     [0, 0, 0] ! 0 \<noteq> [0, 0, 0] ! 0 + ([1, 1, 1] ! 0 - [0, 0, 0] ! 0) * min 1 (4 * (1 / 2))"
  by (simp add: useFrame_nth active_target_def)

subsection \<open>C1: the distance to the target over the frames\<close>




section \<open>Properties of the placement\<close>

subsection \<open>One instance\<close>

lemma color_triple: "\<exists>r gr b. (c :: color) = (r, gr, b)"
  by (cases c) simp

lemma placeInstance_Inr:
  assumes "i < count"
  shows "\<exists>bufs' tc'.
    placeInstance T colors count i (bufs, tc, g) = Inr (bufs', tc', \<lambda>n. g (n + 5)) \<and>
    tree bufs' = (tree bufs)
      [i * 3 := cone_radius (real i / real count * 10 - 5) * cos (real i * 2.39996)
                  + (g 0 - 0.5) * 0.3,
       i * 3 + 1 := real i / real count * 10 - 5,
       i * 3 + 2 := cone_radius (real i / real count * 10 - 5) * sin (real i * 2.39996)
                  + (g 1 - 0.5) * 0.3] \<and>
    length (explode bufs') = length (explode bufs) \<and>
    length (colorArray bufs') = length (colorArray bufs)"
proof -
  have "real count \<noteq> 0" using assms by simp
  then show ?thesis
    by (simp add: placeInstance_def js_div_def Let_def Math_random_def Suc_numerals(5)
        color_triple)
qed

subsection \<open>The whole memo\<close>

text \<open>
  The loop by invariant. Before instance \<open>k\<close> the arrays have their length, the
  generator has made five draws per instance, and the tree positions of the instances
  below \<open>k\<close> are the cone positions plus the jitter of their two draws.
\<close>

lemma targets_result:
  "\<exists>bufs g'. targets T colors count g = Inr (bufs, g') \<and>
     length (tree bufs) = count * 3 \<and> length (explode bufs) = count * 3 \<and>
     length (colorArray bufs) = count * 3 \<and>
     (\<forall>i<count.
        tree bufs ! (i * 3) =
          cone_radius (real i / real count * 10 - 5) * cos (real i * 2.39996)
            + (g (5 * i) - 0.5) * 0.3 \<and>
        tree bufs ! (i * 3 + 1) = real i / real count * 10 - 5 \<and>
        tree bufs ! (i * 3 + 2) =
          cone_radius (real i / real count * 10 - 5) * sin (real i * 2.39996)
            + (g (5 * i + 1) - 0.5) * 0.3)"
proof -
  define entry :: "target_buffers \<Rightarrow> nat \<Rightarrow> bool" where
    "entry = (\<lambda>bufs i.
       tree bufs ! (i * 3) =
         cone_radius (real i / real count * 10 - 5) * cos (real i * 2.39996)
           + (g (5 * i) - 0.5) * 0.3 \<and>
       tree bufs ! (i * 3 + 1) = real i / real count * 10 - 5 \<and>
       tree bufs ! (i * 3 + 2) =
         cone_radius (real i / real count * 10 - 5) * sin (real i * 2.39996)
           + (g (5 * i + 1) - 0.5) * 0.3)"
  define placed :: "nat \<Rightarrow> placement \<Rightarrow> bool" where
    "placed = (\<lambda>k st. case st of (bufs, tc, g') \<Rightarrow>
       length (tree bufs) = count * 3 \<and> length (explode bufs) = count * 3 \<and>
       length (colorArray bufs) = count * 3 \<and> g' = (\<lambda>n. g (n + 5 * k)) \<and>
       (\<forall>i<k. entry bufs i))"
  have step: "\<exists>st'. placeInstance T colors count k st = Inr st' \<and> placed (Suc k) st'"
    if inv: "placed k st" and k: "k < count" for k st
  proof -
    obtain bufs tc g' where st: "st = (bufs, tc, g')" by (cases st)
    have len: "length (tree bufs) = count * 3" "length (explode bufs) = count * 3"
        "length (colorArray bufs) = count * 3"
      and g': "g' = (\<lambda>n. g (n + 5 * k))"
      and old: "\<And>i. i < k \<Longrightarrow> entry bufs i"
      using inv by (simp_all add: placed_def st)
    obtain bufs' tc' where r: "placeInstance T colors count k (bufs, tc, g') =
        Inr (bufs', tc', \<lambda>n. g' (n + 5))"
      and tr: "tree bufs' = (tree bufs)
        [k * 3 := cone_radius (real k / real count * 10 - 5) * cos (real k * 2.39996)
                    + (g' 0 - 0.5) * 0.3,
         k * 3 + 1 := real k / real count * 10 - 5,
         k * 3 + 2 := cone_radius (real k / real count * 10 - 5) * sin (real k * 2.39996)
                    + (g' 1 - 0.5) * 0.3]"
      and ex: "length (explode bufs') = length (explode bufs)"
      and co: "length (colorArray bufs') = length (colorArray bufs)"
      using placeInstance_Inr [OF k, of T colors bufs tc g'] by blast
    have kin: "k * 3 + 2 < length (tree bufs)" using k len(1) by simp
    have new: "entry bufs' k"
      using kin by (simp add: entry_def tr g' add.commute)
    have keep: "tree bufs' ! (i * 3 + c) = tree bufs ! (i * 3 + c)" if "i < k" "c < 3" for i c
    proof -
      have "i * 3 + c \<noteq> k * 3" "i * 3 + c \<noteq> k * 3 + 1" "i * 3 + c \<noteq> k * 3 + 2"
        using that by linarith+
      then show ?thesis by (simp add: tr)
    qed
    have all: "entry bufs' i" if "i < Suc k" for i
    proof (cases "i = k")
      case True
      then show ?thesis using new by simp
    next
      case False
      then have ik: "i < k" using that by simp
      show ?thesis
        using old [OF ik] keep [OF ik, of 0] keep [OF ik, of 1] keep [OF ik, of 2]
        by (simp add: entry_def)
    qed
    have "(\<lambda>n. g' (n + 5)) = (\<lambda>n. g (n + 5 * Suc k))"
      by (simp add: g' add.assoc add.commute)
    then have "placed (Suc k) (bufs', tc', \<lambda>n. g' (n + 5))"
      using all len ex co tr by (simp add: placed_def)
    then show ?thesis using r st by simp
  qed
  let ?init = "(\<lparr>tree = replicate (count * 3) 0, explode = replicate (count * 3) 0,
      colorArray = replicate (count * 3) 0\<rparr>, (1, 1, 1), g) :: placement"
  have "\<exists>s'. for_loop_chk 0 count (placeInstance T colors count) ?init = Inr s' \<and>
      placed count s'"
  proof (rule for_loop_chk_rule [where P = placed])
    show "placed 0 ?init" by (simp add: placed_def)
  next
    fix k t assume "k < count" "placed k t"
    then show "\<exists>t'. placeInstance T colors count k t = Inr t' \<and> placed (Suc k) t'"
      by (intro step)
  qed simp
  then obtain bufs tc g' where
    run: "for_loop_chk 0 count (placeInstance T colors count) ?init = Inr (bufs, tc, g')"
    and p: "placed count (bufs, tc, g')"
    by (metis prod_cases3)
  have "targets T colors count g = Inr (bufs, g')"
    by (simp add: targets_def run)
  then show ?thesis using p by (auto simp: placed_def entry_def)
qed

subsection \<open>C7: the sizes of the two buffers\<close>

text \<open>
  Claim C7. For every population size \<open>N\<close> the memo ends without meeting a zero
  divisor and returns a tree buffer and an explosion buffer of \<open>3 * N\<close> numbers each,
  that is \<open>N\<close> positions each. For \<open>N = 0\<close> the loop body never runs: both buffers
  are empty and the generator is untouched.
\<close>

theorem targets_sizes:
  "(\<exists>bufs g'. targets T colors count g = Inr (bufs, g') \<and>
      length (tree bufs) = count * 3 \<and> length (explode bufs) = count * 3) \<and>
   targets T colors 0 g = Inr (\<lparr>tree = [], explode = [], colorArray = []\<rparr>, g)"
proof
  show "\<exists>bufs g'. targets T colors count g = Inr (bufs, g') \<and>
      length (tree bufs) = count * 3 \<and> length (explode bufs) = count * 3"
    using targets_result [of T colors count g] by blast
next
  show "targets T colors 0 g = Inr (\<lparr>tree = [], explode = [], colorArray = []\<rparr>, g)"
    by (simp add: targets_def for_loop_chk.simps)
qed

theorem targets_sizes_witness:
  "\<exists>bufs g'.
     targets \<lparr>Color_set = (\<lambda>s. (1, 0, 0)), Color_offsetHSL = (\<lambda>c. c)\<rparr> [''#FFD700''] 2
       (\<lambda>n. 1 / 2) = Inr (bufs, g') \<and>
     length (tree bufs) = 2 * 3 \<and> length (explode bufs) = 2 * 3"
  using targets_sizes [of "\<lparr>Color_set = (\<lambda>s. (1, 0, 0)), Color_offsetHSL = (\<lambda>c. c)\<rparr>"
      "[''#FFD700'']" 2 "\<lambda>n. 1 / 2"]
  by simp

subsection \<open>C8: the cone\<close>

lemma cone_radius_antimono: "y \<le> y' \<Longrightarrow> cone_radius y' \<le> cone_radius y"
  by (simp add: cone_radius_def Let_def)

lemma jitter_bound:
  assumes "0 \<le> u \<and> u < (1 :: real)"
  shows "\<bar>(u - 0.5) * 0.3\<bar> \<le> 0.3"
proof -
  have "\<bar>u - 0.5\<bar> \<le> 1" using assms by (simp add: abs_if)
  then have "\<bar>u - 0.5\<bar> * 0.3 \<le> 1 * 0.3" by (intro mult_right_mono) simp_all
  then show ?thesis by (simp add: abs_mult)
qed

text \<open>
  Claim C8. In the tree buffer the memo returns, the height stored for instance \<open>i\<close>
  is \<open>i / count * 10 - 5\<close>, so for \<open>i < j\<close> the height of \<open>i\<close> is at most that of
  \<open>j\<close>, and the cone radius of \<open>i\<close> is at least that of \<open>j\<close>. The stored \<open>x\<close> and
  \<open>z\<close> of every instance \<open>k\<close> differ from the cone position
  \<open>radius * cos theta\<close>, \<open>radius * sin theta\<close> by at most 0.3 each, and the stored
  height carries no jitter.
\<close>

theorem tree_cone:
  assumes "targets T colors count g = Inr (bufs, g')" "unit_rng g"
    and "i < j" "j < count" "k < count"
  shows "tree bufs ! (i * 3 + 1) = real i / real count * 10 - 5 \<and>
         tree bufs ! (j * 3 + 1) = real j / real count * 10 - 5 \<and>
         tree bufs ! (i * 3 + 1) \<le> tree bufs ! (j * 3 + 1) \<and>
         cone_radius (tree bufs ! (j * 3 + 1)) \<le> cone_radius (tree bufs ! (i * 3 + 1)) \<and>
         \<bar>tree bufs ! (k * 3)
            - cone_radius (tree bufs ! (k * 3 + 1)) * cos (real k * 2.39996)\<bar> \<le> 0.3 \<and>
         \<bar>tree bufs ! (k * 3 + 2)
            - cone_radius (tree bufs ! (k * 3 + 1)) * sin (real k * 2.39996)\<bar> \<le> 0.3"
proof -
  obtain bufs0 g0 where t: "targets T colors count g = Inr (bufs0, g0)"
    and e: "\<And>i. i < count \<Longrightarrow>
        tree bufs0 ! (i * 3) =
          cone_radius (real i / real count * 10 - 5) * cos (real i * 2.39996)
            + (g (5 * i) - 0.5) * 0.3 \<and>
        tree bufs0 ! (i * 3 + 1) = real i / real count * 10 - 5 \<and>
        tree bufs0 ! (i * 3 + 2) =
          cone_radius (real i / real count * 10 - 5) * sin (real i * 2.39996)
            + (g (5 * i + 1) - 0.5) * 0.3"
    using targets_result [of T colors count g] by blast
  have b: "bufs0 = bufs" using t assms(1) by simp
  have ic: "i < count" using assms(3,4) by simp
  have yi: "tree bufs ! (i * 3 + 1) = real i / real count * 10 - 5"
    using e [OF ic] b by simp
  have yj: "tree bufs ! (j * 3 + 1) = real j / real count * 10 - 5"
    using e [OF assms(4)] b by simp
  have "real i / real count \<le> real j / real count"
    using assms(3) by (intro divide_right_mono) simp_all
  then have "real i / real count * 10 - 5 \<le> real j / real count * 10 - 5"
    by (intro diff_right_mono mult_right_mono) simp_all
  then have le: "tree bufs ! (i * 3 + 1) \<le> tree bufs ! (j * 3 + 1)"
    by (simp only: yi yj)
  have rad: "cone_radius (tree bufs ! (j * 3 + 1)) \<le> cone_radius (tree bufs ! (i * 3 + 1))"
    using le by (rule cone_radius_antimono)
  have yk: "tree bufs ! (k * 3 + 1) = real k / real count * 10 - 5"
    using e [OF assms(5)] b by simp
  have ex: "tree bufs ! (k * 3) - cone_radius (tree bufs ! (k * 3 + 1)) * cos (real k * 2.39996)
      = (g (5 * k) - 0.5) * 0.3"
    using e [OF assms(5)] b by (simp add: yk)
  have jx: "\<bar>tree bufs ! (k * 3)
      - cone_radius (tree bufs ! (k * 3 + 1)) * cos (real k * 2.39996)\<bar> \<le> 0.3"
    unfolding ex by (rule jitter_bound [OF unit_rng_bounds [OF assms(2)]])
  have ez: "tree bufs ! (k * 3 + 2)
      - cone_radius (tree bufs ! (k * 3 + 1)) * sin (real k * 2.39996)
      = (g (5 * k + 1) - 0.5) * 0.3"
    using e [OF assms(5)] b by (simp add: yk)
  have jz: "\<bar>tree bufs ! (k * 3 + 2)
      - cone_radius (tree bufs ! (k * 3 + 1)) * sin (real k * 2.39996)\<bar> \<le> 0.3"
    unfolding ez by (rule jitter_bound [OF unit_rng_bounds [OF assms(2)]])
  show ?thesis using yi yj le rad jx jz by blast
qed

theorem tree_cone_witness:
  "\<exists>bufs g'.
     targets \<lparr>Color_set = (\<lambda>s. (1, 0, 0)), Color_offsetHSL = (\<lambda>c. c)\<rparr> [''#FFD700''] 2
       (\<lambda>n. 1 / 2) = Inr (bufs, g') \<and>
     tree bufs ! (0 * 3 + 1) = - 5 \<and> tree bufs ! (1 * 3 + 1) = 0 \<and>
     cone_radius (tree bufs ! (1 * 3 + 1)) \<le> cone_radius (tree bufs ! (0 * 3 + 1)) \<and>
     \<bar>tree bufs ! (1 * 3)
        - cone_radius (tree bufs ! (1 * 3 + 1)) * cos (real 1 * 2.39996)\<bar> \<le> 0.3"
proof -
  let ?T = "\<lparr>Color_set = (\<lambda>s. (1, 0, 0)), Color_offsetHSL = (\<lambda>c. c)\<rparr>"
  obtain bufs g' where t: "targets ?T [''#FFD700''] 2 (\<lambda>n. 1 / 2) = Inr (bufs, g')"
    using targets_result [of ?T "[''#FFD700'']" 2 "\<lambda>n. 1 / 2"] by blast
  have u: "unit_rng (\<lambda>n. 1 / 2)" by (simp add: unit_rng_def)
  have "(0 :: nat) < 1" "(1 :: nat) < 2" by simp_all
  from tree_cone [OF t u this this(2)] t show ?thesis
    by (intro exI [of _ bufs] exI [of _ g']) auto
qed

section \<open>Properties of the snow\<close>

subsection \<open>resetParticle\<close>

lemma resetParticle_length: "length (fst (resetParticle data i f g)) = length data"
  by (simp add: resetParticle_def Let_def Math_random_def split_def)

lemma resetParticle_rng: "snd (resetParticle data i f g) = (\<lambda>n. g (n + 5))"
  by (simp add: resetParticle_def Let_def Math_random_def split_def Suc_numerals(5))

lemma resetParticle_other:
  "j < i * 6 \<or> i * 6 + 5 < j \<Longrightarrow> fst (resetParticle data i f g) ! j = data ! j"
  by (auto simp: resetParticle_def Let_def Math_random_def split_def)

lemma resetParticle_fields:
  assumes "i * 6 + 5 < length data"
  shows "fst (resetParticle data i f g) ! (i * 6) = sqrt (g 0) * 45 * cos (g 1 * pi * 2)"
    and "fst (resetParticle data i f g) ! (i * 6 + 1) =
           (if f then g 2 * 40 + 5 else 30 + g 2 * 15)"
    and "fst (resetParticle data i f g) ! (i * 6 + 2) = sqrt (g 0) * 45 * sin (g 1 * pi * 2)"
    and "fst (resetParticle data i f g) ! (i * 6 + 3) = 0.01 + g 3 * 0.03"
    and "fst (resetParticle data i f g) ! (i * 6 + 4) = g 4 * pi * 2"
    and "fst (resetParticle data i f g) ! (i * 6 + 5) = 0"
  using assms
  by (simp_all add: resetParticle_def Let_def Math_random_def split_def Suc_numerals(1-3))

lemma resetParticle_top:
  assumes "i * 6 + 5 < length data" "unit_rng g"
  shows "falling (fst (resetParticle data i False g)) i \<and>
         30 \<le> fst (resetParticle data i False g) ! (i * 6 + 1) \<and>
         fst (resetParticle data i False g) ! (i * 6 + 1) < 45"
  using unit_rng_bounds [OF assms(2), of 2]
    resetParticle_fields(2,6) [OF assms(1), of False g]
  by (simp add: falling_def)

subsection \<open>Resetting every particle\<close>

lemma reset_all:
  assumes "length data = count * 6" "unit_rng g"
  shows "(case for_loop 0 count (\<lambda>i (d, g'). resetParticle d i False g') (data, g) of
           (d, g') \<Rightarrow> length d = count * 6 \<and> unit_rng g' \<and>
             (\<forall>i<count. falling d i \<and> 30 \<le> d ! (i * 6 + 1) \<and> d ! (i * 6 + 1) < 45))"
proof (rule for_loop_rule [where P = "\<lambda>k st. case st of (d, g') \<Rightarrow>
    length d = count * 6 \<and> unit_rng g' \<and>
    (\<forall>i<k. falling d i \<and> 30 \<le> d ! (i * 6 + 1) \<and> d ! (i * 6 + 1) < 45)"])
  show "case (data, g) of (d, g') \<Rightarrow> length d = count * 6 \<and> unit_rng g' \<and>
    (\<forall>i<0. falling d i \<and> 30 \<le> d ! (i * 6 + 1) \<and> d ! (i * 6 + 1) < 45)"
    using assms by simp
next
  fix k :: nat and t :: "real list \<times> rng"
  assume k: "k < count"
    and inv: "case t of (d, g') \<Rightarrow> length d = count * 6 \<and> unit_rng g' \<and>
      (\<forall>i<k. falling d i \<and> 30 \<le> d ! (i * 6 + 1) \<and> d ! (i * 6 + 1) < 45)"
  obtain d g' where t: "t = (d, g')" by (cases t)
  have len: "length d = count * 6" and u: "unit_rng g'"
    and old: "\<And>i. i < k \<Longrightarrow> falling d i \<and> 30 \<le> d ! (i * 6 + 1) \<and> d ! (i * 6 + 1) < 45"
    using inv t by simp_all
  have kin: "k * 6 + 5 < length d" using k len by simp
  let ?r = "resetParticle d k False g'"
  have keep: "fst ?r ! (i * 6 + c) = d ! (i * 6 + c)" if "i < k" "c < 6" for i c
    using that by (intro resetParticle_other) linarith
  have "length (fst ?r) = count * 6" by (simp add: resetParticle_length len)
  moreover have "unit_rng (snd ?r)" by (simp add: resetParticle_rng unit_rng_tail [OF u])
  moreover have "falling (fst ?r) i \<and> 30 \<le> fst ?r ! (i * 6 + 1) \<and> fst ?r ! (i * 6 + 1) < 45"
    if "i < Suc k" for i
  proof (cases "i = k")
    case True
    then show ?thesis using resetParticle_top [OF kin u] by simp
  next
    case False
    then have "i < k" using that by simp
    then show ?thesis using old [of i] keep [of i 5] keep [of i 1] by (simp add: falling_def)
  qed
  ultimately show "case (case t of (d, g') \<Rightarrow> resetParticle d k False g') of
      (d, g') \<Rightarrow> length d = count * 6 \<and> unit_rng g' \<and>
        (\<forall>i<Suc k. falling d i \<and> 30 \<le> d ! (i * 6 + 1) \<and> d ! (i * 6 + 1) < 45)"
    by (simp add: t split_def)
qed simp

subsection \<open>C6: returning to Tree mode clears the snow\<close>

text \<open>
  Claim C6. When the mode effect runs for the change from Exploded to Tree, every one of
  the particles is reset: each is falling, at a height in \<open>[30, 45)\<close>, so none of
  them is landed; the array keeps its length. The change from Tree to Exploded leaves the
  particles as they are.
\<close>

theorem snow_cleared_on_return:
  assumes "length data = count * 6" "unit_rng g"
  shows "landed_count count (fst (fst (SnowSystem_useEffect count Exploded Tree (data, g)))) = 0 \<and>
         (\<forall>i<count.
            falling (fst (fst (SnowSystem_useEffect count Exploded Tree (data, g)))) i \<and>
            30 \<le> fst (fst (SnowSystem_useEffect count Exploded Tree (data, g))) ! (i * 6 + 1) \<and>
            fst (fst (SnowSystem_useEffect count Exploded Tree (data, g))) ! (i * 6 + 1) < 45) \<and>
         length (fst (fst (SnowSystem_useEffect count Exploded Tree (data, g)))) = count * 6 \<and>
         snd (SnowSystem_useEffect count Exploded Tree (data, g)) = Tree \<and>
         SnowSystem_useEffect count Tree Exploded (data, g) = ((data, g), Exploded)"
proof -
  let ?d = "fst (fst (SnowSystem_useEffect count Exploded Tree (data, g)))"
  have eq: "?d = fst (for_loop 0 count (\<lambda>i (d, g'). resetParticle d i False g') (data, g))"
    by (simp add: SnowSystem_useEffect_def)
  have all: "length ?d = count * 6 \<and>
      (\<forall>i<count. falling ?d i \<and> 30 \<le> ?d ! (i * 6 + 1) \<and> ?d ! (i * 6 + 1) < 45)"
    unfolding eq using reset_all [OF assms] by (simp add: split_def)
  then have "filter (\<lambda>i. \<not> falling ?d i) [0..<count] = []"
    by (simp add: filter_empty_conv)
  then have "landed_count count ?d = 0"
    by (simp add: landed_count_def)
  then show ?thesis
    using all by (simp add: SnowSystem_useEffect_def)
qed

theorem snow_cleared_on_return_witness:
  "landed_count 1 [0, - 5, 0, 0.02, 0, 1] = 1 \<and>
   landed_count 1
     (fst (fst (SnowSystem_useEffect 1 Exploded Tree ([0, - 5, 0, 0.02, 0, 1], \<lambda>n. 0)))) = 0 \<and>
   fst (fst (SnowSystem_useEffect 1 Exploded Tree ([0, - 5, 0, 0.02, 0, 1], \<lambda>n. 0))) ! 1 = 30"
proof -
  have u: "unit_rng (\<lambda>n. 0)" by (simp add: unit_rng_def)
  have l: "length [0, - 5, 0, 0.02, 0, 1 :: real] = 1 * 6" by simp
  have y: "fst (fst (SnowSystem_useEffect 1 Exploded Tree
      ([0, - 5, 0, 0.02, 0, 1], \<lambda>n. 0))) ! 1 = 30"
    by (simp add: SnowSystem_useEffect_def for_loop.simps resetParticle_def Let_def
        Math_random_def)
  show ?thesis
    using snow_cleared_on_return [OF l u] y
    by (simp add: landed_count_def falling_def)
qed

subsection \<open>C5: a falling particle reaches its local ground\<close>

subsubsection \<open>One step of one particle\<close>

lemma sqrt_less_radius: "0 \<le> r \<Longrightarrow> sqrt a < r \<longleftrightarrow> a < r * r"
proof -
  assume r: "0 \<le> r"
  have "sqrt a < sqrt (r * r) \<longleftrightarrow> a < r * r" by (rule real_sqrt_less_iff)
  then show ?thesis using r by simp
qed

text \<open>
  One Tree-mode step of a falling particle \<open>i\<close> that is at or below the ground drawn
  for it: landed inside the accumulation radius, reset outside.
\<close>

lemma treeParticle_at_ground:
  assumes "i * 6 + 5 < length data" "unit_rng g" "falling data i"
    and "y = data ! (i * 6 + 1) - data ! (i * 6 + 3) * (delta * 60)"
    and "x = data ! (i * 6) + sin (time + data ! (i * 6 + 4)) * 0.005"
    and "z = data ! (i * 6 + 2) + cos (time * 0.8 + data ! (i * 6 + 4)) * 0.005"
    and "localGround = groundLevel + g 0 * accumulationHeight"
    and "y \<le> localGround"
    and "d' = fst (treeParticle time delta i (data, g))"
  shows "- 5 \<le> localGround \<and> localGround < - 4.8 \<and>
         (sqrt (x * x + z * z) < accumulationRadius \<longrightarrow>
            \<not> falling d' i \<and> d' ! (i * 6 + 5) = 1 \<and> d' ! (i * 6 + 1) = localGround \<and>
            d' ! (i * 6) = x \<and> d' ! (i * 6 + 2) = z) \<and>
         (\<not> sqrt (x * x + z * z) < accumulationRadius \<longrightarrow>
            falling d' i \<and> 30 \<le> d' ! (i * 6 + 1) \<and> d' ! (i * 6 + 1) < 45 \<and>
            d' ! (i * 6) = sqrt (g 1) * 45 * cos (g 2 * pi * 2) \<and>
            d' ! (i * 6 + 2) = sqrt (g 1) * 45 * sin (g 2 * pi * 2) \<and>
            sqrt (d' ! (i * 6) * d' ! (i * 6) + d' ! (i * 6 + 2) * d' ! (i * 6 + 2)) < 45)"
proof -
  let ?d1 = "data[i * 6 + 1 := data ! (i * 6 + 1) - data ! (i * 6 + 3) * (delta * 60)]"
  let ?d2 = "?d1[i * 6 := ?d1 ! (i * 6) + sin (time + ?d1 ! (i * 6 + 4)) * 0.005]"
  let ?d3 = "?d2[i * 6 + 2 := ?d2 ! (i * 6 + 2) + cos (time * 0.8 + ?d2 ! (i * 6 + 4)) * 0.005]"
  let ?g1 = "\<lambda>n. g (Suc n)"
  have st: "data ! (i * 6 + 5) = 0" using assms(3) by (simp add: falling_def)
  have d3x: "?d3 ! (i * 6) = x" and d3y: "?d3 ! (i * 6 + 1) = y" and d3z: "?d3 ! (i * 6 + 2) = z"
    using assms(1) by (simp_all add: assms(4,5,6))
  have len3: "i * 6 + 5 < length ?d3" using assms(1) by simp
  have g0: "0 \<le> g 0 \<and> g 0 < 1" using assms(2) by (rule unit_rng_bounds)
  have ground: "- 5 \<le> localGround \<and> localGround < - 4.8"
    using g0 by (simp add: assms(7) groundLevel_def accumulationHeight_def)
  have step: "treeParticle time delta i (data, g) =
      (if x * x + z * z < accumulationRadius * accumulationRadius
       then (?d3[i * 6 + 1 := localGround, i * 6 + 5 := 1], ?g1)
       else resetParticle ?d3 i False ?g1)"
    using st assms(8) d3x d3y d3z
    by (simp add: treeParticle_def Let_def Math_random_def assms(7))
  have r: "sqrt (x * x + z * z) < accumulationRadius \<longleftrightarrow>
      x * x + z * z < accumulationRadius * accumulationRadius"
    by (rule sqrt_less_radius) (simp add: accumulationRadius_def)
  have landed: "\<not> falling d' i \<and> d' ! (i * 6 + 5) = 1 \<and> d' ! (i * 6 + 1) = localGround \<and>
      d' ! (i * 6) = x \<and> d' ! (i * 6 + 2) = z"
    if "sqrt (x * x + z * z) < accumulationRadius"
  proof -
    have "d' = ?d3[i * 6 + 1 := localGround, i * 6 + 5 := 1]"
      using that r step by (simp add: assms(9))
    then show ?thesis
      using assms(1) d3x d3z by (simp add: falling_def)
  qed
  have recycled: "falling d' i \<and> 30 \<le> d' ! (i * 6 + 1) \<and> d' ! (i * 6 + 1) < 45 \<and>
      d' ! (i * 6) = sqrt (g 1) * 45 * cos (g 2 * pi * 2) \<and>
      d' ! (i * 6 + 2) = sqrt (g 1) * 45 * sin (g 2 * pi * 2) \<and>
      sqrt (d' ! (i * 6) * d' ! (i * 6) + d' ! (i * 6 + 2) * d' ! (i * 6 + 2)) < 45"
    if "\<not> sqrt (x * x + z * z) < accumulationRadius"
  proof -
    have d': "d' = fst (resetParticle ?d3 i False ?g1)"
      using that r step by (simp add: assms(9))
    have u1: "unit_rng ?g1" using assms(2) by (rule unit_rng_Suc)
    have top: "falling d' i \<and> 30 \<le> d' ! (i * 6 + 1) \<and> d' ! (i * 6 + 1) < 45"
      unfolding d' by (rule resetParticle_top [OF len3 u1])
    have px: "d' ! (i * 6) = sqrt (g 1) * 45 * cos (g 2 * pi * 2)"
      unfolding d' using resetParticle_fields(1) [OF len3, of False ?g1]
      by (simp add: Suc_numerals(1))
    have pz: "d' ! (i * 6 + 2) = sqrt (g 1) * 45 * sin (g 2 * pi * 2)"
      unfolding d' using resetParticle_fields(3) [OF len3, of False ?g1]
      by (simp add: Suc_numerals(1))
    have g1: "0 \<le> g 1 \<and> g 1 < 1" using assms(2) by (rule unit_rng_bounds)
    define s where "s = sqrt (g 1)"
    define c where "c = cos (g 2 * pi * 2)"
    define w where "w = sin (g 2 * pi * 2)"
    have ss: "s * s = g 1" using g1 by (simp add: s_def)
    have cw: "c * c + w * w = 1" by (simp add: c_def w_def)
    have "d' ! (i * 6) * d' ! (i * 6) + d' ! (i * 6 + 2) * d' ! (i * 6 + 2) =
        (s * 45 * c) * (s * 45 * c) + (s * 45 * w) * (s * 45 * w)"
      unfolding px pz s_def c_def w_def by (rule refl)
    also have "\<dots> = (s * s) * (45 * 45) * (c * c + w * w)"
      by (simp only: algebra_simps)
    also have "\<dots> = g 1 * (45 * 45)" by (simp only: ss cw mult_1_right)
    also have "\<dots> < 45 * 45" using g1 by simp
    finally have "sqrt (d' ! (i * 6) * d' ! (i * 6) + d' ! (i * 6 + 2) * d' ! (i * 6 + 2)) < 45"
      by (simp add: sqrt_less_radius)
    then show ?thesis using top px pz by simp
  qed
  show ?thesis using ground landed recycled by blast
qed

subsubsection \<open>The Tree-mode frame, particle by particle\<close>

lemma for_loop_chk_split:
  "a \<le> m \<Longrightarrow> m \<le> n \<Longrightarrow>
   for_loop_chk a n body s =
     (case for_loop_chk a m body s of Inl e \<Rightarrow> Inl e | Inr s' \<Rightarrow> for_loop_chk m n body s')"
proof (induction a m body s rule: for_loop_chk.induct)
  case (1 a m body s)
  show ?case
  proof (cases "a < m")
    case True
    then have an: "a < n" using "1.prems"(2) by simp
    show ?thesis
    proof (cases "body a s")
      case (Inl e)
      then show ?thesis
        using True an
        by (simp add: for_loop_chk.simps [of a n] for_loop_chk.simps [of a m])
    next
      case (Inr s1)
      have "for_loop_chk (Suc a) n body s1 =
          (case for_loop_chk (Suc a) m body s1 of
             Inl e \<Rightarrow> Inl e | Inr s' \<Rightarrow> for_loop_chk m n body s')"
        using "1.IH" [OF True Inr] True "1.prems"(2) by simp
      then show ?thesis
        using True an Inr
        by (simp add: for_loop_chk.simps [of a n] for_loop_chk.simps [of a m])
    qed
  next
    case False
    then have "a = m" using "1.prems"(1) by simp
    then show ?thesis by (simp add: for_loop_chk.simps [of m m])
  qed
qed

text \<open>A Tree-mode step of particle \<open>k\<close> touches the six numbers of particle \<open>k\<close> only.\<close>

lemma treeParticle_length: "length (fst (treeParticle time delta k (d, g))) = length d"
  by (simp add: treeParticle_def Let_def Math_random_def split_def resetParticle_length)

lemma treeParticle_other:
  "j < k * 6 \<or> k * 6 + 5 < j \<Longrightarrow> fst (treeParticle time delta k (d, g)) ! j = d ! j"
  by (auto simp: treeParticle_def Let_def Math_random_def split_def resetParticle_other)

lemma treeParticle_rng: "unit_rng g \<Longrightarrow> unit_rng (snd (treeParticle time delta k (d, g)))"
  by (simp add: treeParticle_def Let_def Math_random_def split_def resetParticle_rng
      unit_rng_def)

lemma tree_loop_keeps:
  assumes run: "for_loop_chk a n (snowParticle Tree time delta) (d, g) = Inr (d', g')"
    and "a \<le> n" "i < a \<or> n \<le> i" "unit_rng g"
  shows "length d' = length d \<and> unit_rng g' \<and> (\<forall>c<6. d' ! (i * 6 + c) = d ! (i * 6 + c))"
proof -
  have "\<exists>s'. for_loop_chk a n (snowParticle Tree time delta) (d, g) = Inr s' \<and>
      (length (fst s') = length d \<and> unit_rng (snd s') \<and>
       (\<forall>c<6. fst s' ! (i * 6 + c) = d ! (i * 6 + c)))"
  proof (rule for_loop_chk_rule [where P = "\<lambda>k st. length (fst st) = length d \<and>
      unit_rng (snd st) \<and> (\<forall>c<6. fst st ! (i * 6 + c) = d ! (i * 6 + c))"])
    show "length (fst (d, g)) = length d \<and> unit_rng (snd (d, g)) \<and>
        (\<forall>c<6. fst (d, g) ! (i * 6 + c) = d ! (i * 6 + c))"
      using assms(4) by simp
  next
    fix k :: nat and t :: "real list \<times> rng"
    assume ak: "a \<le> k" and kn: "k < n"
      and inv: "length (fst t) = length d \<and> unit_rng (snd t) \<and>
        (\<forall>c<6. fst t ! (i * 6 + c) = d ! (i * 6 + c))"
    obtain dk gk where t: "t = (dk, gk)" by (cases t)
    have ki: "k \<noteq> i" using ak kn assms(3) by auto
    have keep: "fst (treeParticle time delta k (dk, gk)) ! (i * 6 + c) = dk ! (i * 6 + c)"
      if "c < 6" for c
    proof (rule treeParticle_other)
      show "i * 6 + c < k * 6 \<or> k * 6 + 5 < i * 6 + c"
        using ki that by (cases "i < k") linarith+
    qed
    have "length (fst (treeParticle time delta k (dk, gk))) = length d \<and>
        unit_rng (snd (treeParticle time delta k (dk, gk))) \<and>
        (\<forall>c<6. fst (treeParticle time delta k (dk, gk)) ! (i * 6 + c) = d ! (i * 6 + c))"
      using inv keep by (simp add: t treeParticle_length treeParticle_rng)
    then show "\<exists>t'. snowParticle Tree time delta k t = Inr t' \<and>
        (length (fst t') = length d \<and> unit_rng (snd t') \<and>
         (\<forall>c<6. fst t' ! (i * 6 + c) = d ! (i * 6 + c)))"
      by (simp add: snowParticle_def t)
  qed (rule assms(2))
  then show ?thesis using run by auto
qed

lemma tree_frame_Inr:
  "\<exists>d' g'. SnowSystem_useFrame mounted Tree time delta count (data, g) = Inr (d', g')"
proof -
  have "\<exists>s'. for_loop_chk 0 count (snowParticle Tree time delta) (data, g) = Inr s' \<and> True"
    by (rule for_loop_chk_rule [where P = "\<lambda>k t. True"]) (simp_all add: snowParticle_def)
  then show ?thesis
    by (cases mounted) (auto simp: SnowSystem_useFrame_def)
qed

text \<open>
  Claim C5. A frame of the snow in Tree mode, over \<open>count\<close> particles. Particle \<open>i\<close>
  is falling at the start of the frame; \<open>(di, gi)\<close> is the state of the loop when it
  reaches particle \<open>i\<close>, so \<open>gi\<close> is the random generator the particles before it
  have left. \<open>x\<close>, \<open>y\<close>, \<open>z\<close> are the coordinates of the particle after gravity and
  wobble and \<open>localGround\<close> is the ground drawn for it in this frame, between -5 and
  -4.8. When \<open>y \<le> localGround\<close>, then after the frame: if the horizontal distance
  \<open>sqrt (x * x + z * z)\<close> is below the accumulation radius 4.5, the particle is landed
  with \<open>y = localGround\<close> and \<open>x\<close>, \<open>z\<close> kept; otherwise it is reset: still falling,
  at a height in \<open>[30, 45)\<close>, at a fresh random horizontal position within 45 of the
  centre.
\<close>

theorem tree_frame_ground:
  assumes "i < count" "length data = count * 6" "unit_rng g" "falling data i"
    and "for_loop_chk 0 i (snowParticle Tree time delta) (data, g) = Inr (di, gi)"
    and "y = data ! (i * 6 + 1) - data ! (i * 6 + 3) * (delta * 60)"
    and "x = data ! (i * 6) + sin (time + data ! (i * 6 + 4)) * 0.005"
    and "z = data ! (i * 6 + 2) + cos (time * 0.8 + data ! (i * 6 + 4)) * 0.005"
    and "localGround = groundLevel + gi 0 * accumulationHeight"
    and "y \<le> localGround"
    and "SnowSystem_useFrame True Tree time delta count (data, g) = Inr (d', g')"
  shows "- 5 \<le> localGround \<and> localGround < - 4.8 \<and>
         (sqrt (x * x + z * z) < accumulationRadius \<longrightarrow>
            \<not> falling d' i \<and> d' ! (i * 6 + 5) = 1 \<and> d' ! (i * 6 + 1) = localGround \<and>
            d' ! (i * 6) = x \<and> d' ! (i * 6 + 2) = z) \<and>
         (\<not> sqrt (x * x + z * z) < accumulationRadius \<longrightarrow>
            falling d' i \<and> 30 \<le> d' ! (i * 6 + 1) \<and> d' ! (i * 6 + 1) < 45 \<and>
            d' ! (i * 6) = sqrt (gi 1) * 45 * cos (gi 2 * pi * 2) \<and>
            d' ! (i * 6 + 2) = sqrt (gi 1) * 45 * sin (gi 2 * pi * 2) \<and>
            sqrt (d' ! (i * 6) * d' ! (i * 6) + d' ! (i * 6 + 2) * d' ! (i * 6 + 2)) < 45)"
proof -
  let ?body = "snowParticle Tree time delta"
  let ?s1 = "treeParticle time delta i (di, gi)"
  have pre: "length di = length data \<and> unit_rng gi \<and>
      (\<forall>c<6. di ! (i * 6 + c) = data ! (i * 6 + c))"
    using assms(5) by (rule tree_loop_keeps) (simp_all add: assms(3))
  have blk: "di ! (i * 6 + c) = data ! (i * 6 + c)" if "c < 6" for c
    using pre that by simp
  have frame: "for_loop_chk 0 count ?body (data, g) = Inr (d', g')"
    using assms(11) by (simp add: SnowSystem_useFrame_def)
  have "for_loop_chk 0 count ?body (data, g) = for_loop_chk i count ?body (di, gi)"
    using for_loop_chk_split [of 0 i count ?body "(data, g)"] assms(1,5) by simp
  also have "\<dots> = for_loop_chk (Suc i) count ?body ?s1"
    using assms(1) by (subst for_loop_chk.simps) (simp add: snowParticle_def)
  finally have post: "for_loop_chk (Suc i) count ?body (fst ?s1, snd ?s1) = Inr (d', g')"
    using frame by simp
  have in1: "i * 6 + 5 < length di" using pre assms(1,2) by simp
  have u1: "unit_rng (snd ?s1)" using pre by (simp add: treeParticle_rng)
  have keep: "\<forall>c<6. d' ! (i * 6 + c) = fst ?s1 ! (i * 6 + c)"
    using tree_loop_keeps [OF post _ _ u1, of i] assms(1) by simp
  have k: "d' ! (i * 6) = fst ?s1 ! (i * 6)" "d' ! (i * 6 + 1) = fst ?s1 ! (i * 6 + 1)"
    "d' ! (i * 6 + 2) = fst ?s1 ! (i * 6 + 2)" "d' ! (i * 6 + 5) = fst ?s1 ! (i * 6 + 5)"
    using keep [rule_format, of 0] keep [rule_format, of 1] keep [rule_format, of 2]
      keep [rule_format, of 5] by simp_all
  have fall: "falling di i" using assms(4) blk [of 5] by (simp add: falling_def)
  have yi: "y = di ! (i * 6 + 1) - di ! (i * 6 + 3) * (delta * 60)"
    using blk [of 1] blk [of 3] by (simp add: assms(6))
  have xi: "x = di ! (i * 6) + sin (time + di ! (i * 6 + 4)) * 0.005"
    using blk [of 0] blk [of 4] by (simp add: assms(7))
  have zi: "z = di ! (i * 6 + 2) + cos (time * 0.8 + di ! (i * 6 + 4)) * 0.005"
    using blk [of 2] blk [of 4] by (simp add: assms(8))
  have u: "unit_rng gi" using pre by simp
  note one = treeParticle_at_ground [OF in1 u fall yi xi zi assms(9,10) refl]
  have f: "falling d' i = falling (fst ?s1) i" by (simp add: falling_def k(4))
  show ?thesis
    using one unfolding f k by blast
qed

theorem tree_frame_ground_witness:
  "(\<exists>d' g'.
      SnowSystem_useFrame True Tree 0 (1 / 60) 2
        ([0, - 5, 0, 0.02, 0, 1, 0, - 5, 0, 0.02, 0, 0], \<lambda>n. 1 / 2) = Inr (d', g') \<and>
      \<not> falling d' 1 \<and> d' ! (1 * 6 + 1) = - 4.9) \<and>
   (\<exists>d' g'.
      SnowSystem_useFrame True Tree 0 (1 / 60) 2
        ([0, - 5, 0, 0.02, 0, 1, 10, - 5, 0, 0.02, 0, 0], \<lambda>n. 1 / 2) = Inr (d', g') \<and>
      falling d' 1 \<and> 30 \<le> d' ! (1 * 6 + 1) \<and> d' ! (1 * 6 + 1) < 45)"
proof -
  let ?near = "[0, - 5, 0, 0.02, 0, 1, 0, - 5, 0, 0.02, 0, 0] :: real list"
  let ?far = "[0, - 5, 0, 0.02, 0, 1, 10, - 5, 0, 0.02, 0, 0] :: real list"
  obtain d' g' where fr:
    "SnowSystem_useFrame True Tree 0 (1 / 60) 2 (?near, \<lambda>n. 1 / 2) = Inr (d', g')"
    using tree_frame_Inr [of True 0 "1 / 60" 2 ?near "\<lambda>n. 1 / 2"] by blast
  obtain e' h' where fr2:
    "SnowSystem_useFrame True Tree 0 (1 / 60) 2 (?far, \<lambda>n. 1 / 2) = Inr (e', h')"
    using tree_frame_Inr [of True 0 "1 / 60" 2 ?far "\<lambda>n. 1 / 2"] by blast
  have u: "unit_rng (\<lambda>n. 1 / 2)" by (simp add: unit_rng_def)
  have a1: "(1 :: nat) < 2" by simp
  have a9: "(- 4.9 :: real) = groundLevel + (\<lambda>n. 1 / 2) (0 :: nat) * accumulationHeight"
    by (simp add: groundLevel_def accumulationHeight_def)
  have a10: "(- 5.02 :: real) \<le> - 4.9" by simp
  have a2: "length ?near = 2 * 6" by simp
  have a4: "falling ?near 1" by (simp add: falling_def)
  have a5: "for_loop_chk 0 1 (snowParticle Tree 0 (1 / 60)) (?near, \<lambda>n. 1 / 2)
      = Inr (?near, \<lambda>n. 1 / 2)"
    by (simp add: for_loop_chk.simps snowParticle_def treeParticle_def Math_random_def)
  have a6: "- 5.02 = ?near ! (1 * 6 + 1) - ?near ! (1 * 6 + 3) * (1 / 60 * 60)" by simp
  have a7: "0 = ?near ! (1 * 6) + sin (0 + ?near ! (1 * 6 + 4)) * 0.005" by simp
  have a8: "0.005 = ?near ! (1 * 6 + 2) + cos (0 * 0.8 + ?near ! (1 * 6 + 4)) * 0.005" by simp
  have near: "sqrt (0 * 0 + 0.005 * 0.005) < accumulationRadius"
    using sqrt_less_radius [of accumulationRadius "0 * 0 + 0.005 * 0.005"]
    by (simp add: accumulationRadius_def)
  have b2: "length ?far = 2 * 6" by simp
  have b4: "falling ?far 1" by (simp add: falling_def)
  have b5: "for_loop_chk 0 1 (snowParticle Tree 0 (1 / 60)) (?far, \<lambda>n. 1 / 2)
      = Inr (?far, \<lambda>n. 1 / 2)"
    by (simp add: for_loop_chk.simps snowParticle_def treeParticle_def Math_random_def)
  have b6: "- 5.02 = ?far ! (1 * 6 + 1) - ?far ! (1 * 6 + 3) * (1 / 60 * 60)" by simp
  have b7: "10 = ?far ! (1 * 6) + sin (0 + ?far ! (1 * 6 + 4)) * 0.005" by simp
  have b8: "0.005 = ?far ! (1 * 6 + 2) + cos (0 * 0.8 + ?far ! (1 * 6 + 4)) * 0.005" by simp
  have far: "\<not> sqrt (10 * 10 + 0.005 * 0.005) < accumulationRadius"
    using sqrt_less_radius [of accumulationRadius "10 * 10 + 0.005 * 0.005"]
    by (simp add: accumulationRadius_def)
  have one: "\<exists>d' g'.
      SnowSystem_useFrame True Tree 0 (1 / 60) 2 (?near, \<lambda>n. 1 / 2) = Inr (d', g') \<and>
      \<not> falling d' 1 \<and> d' ! (1 * 6 + 1) = - 4.9"
    using tree_frame_ground [OF a1 a2 u a4 a5 a6 a7 a8 a9 a10 fr] near fr by blast
  have two: "\<exists>d' g'.
      SnowSystem_useFrame True Tree 0 (1 / 60) 2 (?far, \<lambda>n. 1 / 2) = Inr (d', g') \<and>
      falling d' 1 \<and> 30 \<le> d' ! (1 * 6 + 1) \<and> d' ! (1 * 6 + 1) < 45"
    using tree_frame_ground [OF a1 b2 u b4 b5 b6 b7 b8 a9 a10 fr2] far fr2 by blast
  show ?thesis using one two by blast
qed

subsection \<open>C9: the radial push never divides by zero\<close>

lemma explode_len_pos: "0 < sqrt (x * x + y * y + z * z) + 0.01"
proof -
  have "0 \<le> x * x + y * y + z * z" by simp
  then have "0 \<le> sqrt (x * x + y * y + z * z)" by (rule real_sqrt_ge_zero)
  then show ?thesis by (rule add_nonneg_pos) simp
qed

lemma explodeParticle_Inr:
  "explodeParticle delta i (data, g) =
     Inr (let i6 = i * 6;
              x = data ! i6; y = data ! (i6 + 1); z = data ! (i6 + 2);
              len = sqrt (x * x + y * y + z * z) + 0.01;
              speed = 15 * delta;
              d1 = data[i6 := data ! i6 + x / len * speed];
              d2 = d1[i6 + 1 := d1 ! (i6 + 1) + y / len * speed];
              d3 = d2[i6 + 2 := d2 ! (i6 + 2) + z / len * speed];
              d4 = d3[i6 := d3 ! i6 + (g 0 - 0.5) * 0.2];
              d5 = d4[i6 + 1 := d4 ! (i6 + 1) + (g 1 - 0.5) * 0.2];
              d6 = d5[i6 + 2 := d5 ! (i6 + 2) + (g 2 - 0.5) * 0.2]
          in (d6[i6 + 5 := 0], \<lambda>n. g (n + 3)))"
proof -
  have "sqrt (data ! (i * 6) * data ! (i * 6) + data ! (i * 6 + 1) * data ! (i * 6 + 1)
      + data ! (i * 6 + 2) * data ! (i * 6 + 2)) + 0.01 \<noteq> 0"
    using explode_len_pos [of "data ! (i * 6)" "data ! (i * 6 + 1)" "data ! (i * 6 + 2)"]
    by simp
  then show ?thesis
    by (simp add: explodeParticle_def js_div_def Let_def Math_random_def Suc_numerals(1,4))
qed

text \<open>
  Claim C9. In Exploded mode the length the direction is divided by is the computed
  length plus 0.01, hence positive: the update of a particle never meets a zero divisor,
  whatever its position, and so does a whole frame over any number of particles. A
  particle exactly at the origin is moved by the turbulence alone and is set to falling.
\<close>

theorem explode_no_division_by_zero:
  "(\<exists>st'. explodeParticle delta i (data, g) = Inr st') \<and>
   (\<exists>st'. SnowSystem_useFrame mounted Exploded time delta count (data, g) = Inr st') \<and>
   (i * 6 + 5 < length data \<and>
    data ! (i * 6) = 0 \<and> data ! (i * 6 + 1) = 0 \<and> data ! (i * 6 + 2) = 0 \<longrightarrow>
      explodeParticle delta i (data, g) =
        Inr (data[i * 6 := (g 0 - 0.5) * 0.2, i * 6 + 1 := (g 1 - 0.5) * 0.2,
                  i * 6 + 2 := (g 2 - 0.5) * 0.2, i * 6 + 5 := 0],
             \<lambda>n. g (n + 3)))"
proof (intro conjI impI)
  show "\<exists>st'. explodeParticle delta i (data, g) = Inr st'"
    by (simp add: explodeParticle_Inr)
next
  have "\<exists>s'. for_loop_chk 0 count (snowParticle Exploded time delta) (data, g) = Inr s' \<and> True"
  proof (rule for_loop_chk_rule [where P = "\<lambda>k t. True"])
    fix k :: nat and t :: "real list \<times> rng"
    obtain d g' where "t = (d, g')" by (cases t)
    then show "\<exists>t'. snowParticle Exploded time delta k t = Inr t' \<and> True"
      by (simp add: snowParticle_def explodeParticle_Inr)
  qed simp_all
  then show "\<exists>st'. SnowSystem_useFrame mounted Exploded time delta count (data, g) = Inr st'"
    by (simp add: SnowSystem_useFrame_def)
next
  assume "i * 6 + 5 < length data \<and>
    data ! (i * 6) = 0 \<and> data ! (i * 6 + 1) = 0 \<and> data ! (i * 6 + 2) = 0"
  then show "explodeParticle delta i (data, g) =
        Inr (data[i * 6 := (g 0 - 0.5) * 0.2, i * 6 + 1 := (g 1 - 0.5) * 0.2,
                  i * 6 + 2 := (g 2 - 0.5) * 0.2, i * 6 + 5 := 0],
             \<lambda>n. g (n + 3))"
    by (simp add: explodeParticle_Inr Let_def list_update_swap [of "Suc (i * 6)" "i * 6"]
        list_update_swap [of "Suc (Suc (i * 6))"])
qed

theorem explode_no_division_by_zero_witness:
  "explodeParticle (1 / 60) 0 ([0, 0, 0, 0.02, 0, 1], \<lambda>n. 1 / 2) =
     Inr ([0, 0, 0, 0.02, 0, 0], \<lambda>n. 1 / 2)"
proof -
  have "0 * 6 + 5 < length [0, 0, 0, 0.02, 0, 1 :: real] \<and>
    [0, 0, 0, 0.02, 0, 1 :: real] ! (0 * 6) = 0 \<and>
    [0, 0, 0, 0.02, 0, 1 :: real] ! (0 * 6 + 1) = 0 \<and>
    [0, 0, 0, 0.02, 0, 1 :: real] ! (0 * 6 + 2) = 0"
    by simp
  then show ?thesis
    using explode_no_division_by_zero
      [where i = 0 and data = "[0, 0, 0, 0.02, 0, 1]" and g = "\<lambda>n. 1 / 2" and delta = "1 / 60"
        and mounted = True and time = 0 and count = 1]
    by simp
qed

end
